theory Spec2Isabelle
  imports Complex_Main "HOL-Library.Char_ord" "HOL-Library.List_Lexorder" "HOL-Library.Multiset"
begin

section \<open>Statements and the reference matcher\<close>

text \<open>
  The statement record of \<^verbatim>\<open>shared.ts\<close> (type \<^verbatim>\<open>FideIdStatement\<close>): seven
  string fields, the statement's own identifier first.
\<close>

record FideIdStatement =
  statementFideId :: string
  subjectFideId :: string
  subjectRawIdentifier :: string
  predicateFideId :: string
  predicateRawIdentifier :: string
  objectFideId :: string
  objectRawIdentifier :: string

definition OWL_SAME_AS_IRI :: string where
  "OWL_SAME_AS_IRI = ''https://www.w3.org/2002/07/owl#sameAs''"

definition SCHEMA_VALID_FROM_IRI :: string where
  "SCHEMA_VALID_FROM_IRI = ''https://schema.org/validFrom''"

definition SCHEMA_VALID_THROUGH_IRI :: string where
  "SCHEMA_VALID_THROUGH_IRI = ''https://schema.org/validThrough''"

definition PROV_HAD_PRIMARY_SOURCE_IRI :: string where
  "PROV_HAD_PRIMARY_SOURCE_IRI = ''https://www.w3.org/ns/prov#hadPrimarySource''"

definition SCHEMA_ADDITIONAL_PROPERTY_IRI :: string where
  "SCHEMA_ADDITIONAL_PROPERTY_IRI = ''https://schema.org/additionalProperty''"

definition OWL_DIFFERENT_FROM_IRI :: string where
  "OWL_DIFFERENT_FROM_IRI = ''https://www.w3.org/2002/07/owl#differentFrom''"

definition SCHEMA_NAME_IRI :: string where
  "SCHEMA_NAME_IRI = ''https://schema.org/name''"

definition PERSON_AFFILIATION_PREDICATES :: "string set" where
  "PERSON_AFFILIATION_PREDICATES =
     {''https://schema.org/worksFor'', ''https://schema.org/memberOf'',
      ''https://schema.org/affiliation''}"

text \<open>
  Modelled from the spec: \<^verbatim>\<open>buildStatementRawIdentifier\<close> is imported from the
  package \<^verbatim>\<open>@chris-test/fcp\<close>, whose code is not part of the sources. The
  specification describes its value as the canonical pipe-joined triple \<^verbatim>\<open>A|B|C\<close> of
  the subject, predicate and object identifiers, which is also the form that
  \<^verbatim>\<open>findPrimaryFideId\<close> takes apart again.
\<close>

definition buildStatementRawIdentifier :: "string \<Rightarrow> string \<Rightarrow> string \<Rightarrow> string" where
  "buildStatementRawIdentifier s p ob = s @ ''|'' @ p @ ''|'' @ ob"

definition statementRawOf :: "FideIdStatement \<Rightarrow> string" where
  "statementRawOf st =
     buildStatementRawIdentifier (subjectFideId st) (predicateFideId st) (objectFideId st)"

definition matchesStatementReference :: "FideIdStatement \<Rightarrow> FideIdStatement \<Rightarrow> bool" where
  "matchesStatementReference candidate target =
     (let raw = buildStatementRawIdentifier
                  (subjectFideId target) (predicateFideId target) (objectFideId target)
      in subjectFideId candidate = statementFideId target
         \<or> subjectRawIdentifier candidate = statementFideId target
         \<or> subjectRawIdentifier candidate = raw)"

section \<open>The evidence closure\<close>

text \<open>
  A JavaScript \<^verbatim>\<open>Map\<close> keeps its keys in insertion order; \<^verbatim>\<open>set\<close> on a key
  that is present replaces the value and leaves the key where it is, and on a new key
  appends the entry. The map is an association list with that update.
\<close>

fun mapSet :: "(string \<times> 'v) list \<Rightarrow> string \<Rightarrow> 'v \<Rightarrow> (string \<times> 'v) list" where
  "mapSet [] k v = [(k, v)]"
| "mapSet ((k', v') # m) k v =
     (if k' = k then (k, v) # m else (k', v') # mapSet m k v)"

definition mapValues :: "(string \<times> 'v) list \<Rightarrow> 'v list" where
  "mapValues m = map snd m"

text \<open>The loop \<^verbatim>\<open>for (const statement of xs) selected.set(statement.statementFideId, statement)\<close>.\<close>

definition selectAll ::
  "FideIdStatement list \<Rightarrow> (string \<times> FideIdStatement) list \<Rightarrow> (string \<times> FideIdStatement) list"
where
  "selectAll xs selected = fold (\<lambda>st m. mapSet m (statementFideId st) st) xs selected"

definition validTemporalOf :: "FideIdStatement \<Rightarrow> FideIdStatement list \<Rightarrow> FideIdStatement list" where
  "validTemporalOf target allStatements =
     filter (\<lambda>st. (predicateRawIdentifier st = SCHEMA_VALID_FROM_IRI
                    \<or> predicateRawIdentifier st = SCHEMA_VALID_THROUGH_IRI)
                   \<and> matchesStatementReference st target) allStatements"

definition citationsOf :: "FideIdStatement \<Rightarrow> FideIdStatement list \<Rightarrow> FideIdStatement list" where
  "citationsOf target allStatements =
     (let targetRaw = statementRawOf target;
          validTemporal = validTemporalOf target allStatements;
          validTemporalSet = set (map statementFideId validTemporal);
          validTemporalRawSet = set (map statementRawOf validTemporal)
      in filter (\<lambda>st. predicateRawIdentifier st = PROV_HAD_PRIMARY_SOURCE_IRI
                   \<and> (subjectFideId st \<in> validTemporalSet
                      \<or> subjectRawIdentifier st \<in> validTemporalSet
                      \<or> subjectRawIdentifier st \<in> validTemporalRawSet
                      \<or> subjectFideId st = statementFideId target
                      \<or> subjectRawIdentifier st = statementFideId target
                      \<or> subjectRawIdentifier st = targetRaw)) allStatements)"

definition namesOf :: "FideIdStatement \<Rightarrow> FideIdStatement list \<Rightarrow> FideIdStatement list" where
  "namesOf target allStatements =
     filter (\<lambda>st. predicateRawIdentifier st = SCHEMA_NAME_IRI
                 \<and> (subjectFideId st = subjectFideId target
                    \<or> subjectFideId st = objectFideId target)) allStatements"

definition affiliationsOf :: "FideIdStatement \<Rightarrow> FideIdStatement list \<Rightarrow> FideIdStatement list" where
  "affiliationsOf target allStatements =
     filter (\<lambda>st. predicateRawIdentifier st \<in> PERSON_AFFILIATION_PREDICATES
                 \<and> (subjectFideId st = subjectFideId target
                    \<or> subjectFideId st = objectFideId target)) allStatements"

definition contradictionsOf :: "FideIdStatement \<Rightarrow> FideIdStatement list \<Rightarrow> FideIdStatement list" where
  "contradictionsOf target allStatements =
     filter (\<lambda>st. predicateRawIdentifier st = OWL_DIFFERENT_FROM_IRI
                 \<and> ((subjectFideId st = subjectFideId target
                      \<and> objectFideId st = objectFideId target)
                    \<or> (subjectFideId st = objectFideId target
                      \<and> objectFideId st = subjectFideId target))) allStatements"

text \<open>
  \<^verbatim>\<open>xs.some(node => statement.subjectFideId === node.fideId
     || statement.subjectRawIdentifier === node.rawIdentifier)\<close>, the nodes being the
  objects of the statements \<open>srcs\<close>.
\<close>

definition subjectIsObjectOf :: "FideIdStatement list \<Rightarrow> FideIdStatement \<Rightarrow> bool" where
  "subjectIsObjectOf srcs st =
     list_ex (\<lambda>node. subjectFideId st = objectFideId node
                    \<or> subjectRawIdentifier st = objectRawIdentifier node) srcs"

definition reportStatementsOf :: "FideIdStatement \<Rightarrow> FideIdStatement list \<Rightarrow> FideIdStatement list" where
  "reportStatementsOf target allStatements =
     filter (subjectIsObjectOf (citationsOf target allStatements)) allStatements"

definition propertyNodeStatementsOf ::
  "FideIdStatement \<Rightarrow> FideIdStatement list \<Rightarrow> FideIdStatement list"
where
  "propertyNodeStatementsOf target allStatements =
     (let propertyNodes =
            filter (\<lambda>st. predicateRawIdentifier st = SCHEMA_ADDITIONAL_PROPERTY_IRI)
                   (reportStatementsOf target allStatements)
      in filter (subjectIsObjectOf propertyNodes) allStatements)"

definition buildPersonPromptContextStatements ::
  "FideIdStatement \<Rightarrow> FideIdStatement list \<Rightarrow> FideIdStatement list"
where
  "buildPersonPromptContextStatements target allStatements =
     (let selected0 = selectAll
            (target # validTemporalOf target allStatements @ citationsOf target allStatements
               @ namesOf target allStatements @ affiliationsOf target allStatements
               @ contradictionsOf target allStatements) [];
          selected1 = selectAll (reportStatementsOf target allStatements) selected0;
          selected2 = selectAll (propertyNodeStatementsOf target allStatements) selected1
      in mapValues selected2)"

subsection \<open>The closure as the specification words it\<close>

text \<open>
  The named hops of the specification, as sets: validity, citations, names,
  affiliations, contradictions, report bodies and report properties.
\<close>

definition validityHop :: "FideIdStatement \<Rightarrow> FideIdStatement list \<Rightarrow> FideIdStatement set" where
  "validityHop target allStatements =
     {st \<in> set allStatements.
        predicateRawIdentifier st \<in> {SCHEMA_VALID_FROM_IRI, SCHEMA_VALID_THROUGH_IRI}
        \<and> matchesStatementReference st target}"

definition citationHop :: "FideIdStatement \<Rightarrow> FideIdStatement list \<Rightarrow> FideIdStatement set" where
  "citationHop target allStatements =
     {st \<in> set allStatements.
        predicateRawIdentifier st = PROV_HAD_PRIMARY_SOURCE_IRI
        \<and> ((\<exists>v \<in> validityHop target allStatements. matchesStatementReference st v)
           \<or> matchesStatementReference st target)}"

definition onEndpoint :: "FideIdStatement \<Rightarrow> FideIdStatement \<Rightarrow> bool" where
  "onEndpoint target st =
     (subjectFideId st = subjectFideId target \<or> subjectFideId st = objectFideId target)"

definition nameHop :: "FideIdStatement \<Rightarrow> FideIdStatement list \<Rightarrow> FideIdStatement set" where
  "nameHop target allStatements =
     {st \<in> set allStatements.
        predicateRawIdentifier st = SCHEMA_NAME_IRI \<and> onEndpoint target st}"

definition affiliationHop :: "FideIdStatement \<Rightarrow> FideIdStatement list \<Rightarrow> FideIdStatement set" where
  "affiliationHop target allStatements =
     {st \<in> set allStatements.
        predicateRawIdentifier st \<in> PERSON_AFFILIATION_PREDICATES \<and> onEndpoint target st}"

definition contradictionHop :: "FideIdStatement \<Rightarrow> FideIdStatement list \<Rightarrow> FideIdStatement set" where
  "contradictionHop target allStatements =
     {st \<in> set allStatements.
        predicateRawIdentifier st = OWL_DIFFERENT_FROM_IRI
        \<and> (subjectFideId st = subjectFideId target \<and> objectFideId st = objectFideId target
           \<or> subjectFideId st = objectFideId target \<and> objectFideId st = subjectFideId target)}"

definition subjectEqualsObjectOf :: "FideIdStatement \<Rightarrow> FideIdStatement \<Rightarrow> bool" where
  "subjectEqualsObjectOf st src =
     (subjectFideId st = objectFideId src
      \<or> subjectRawIdentifier st = objectRawIdentifier src)"

definition reportBodyHop :: "FideIdStatement \<Rightarrow> FideIdStatement list \<Rightarrow> FideIdStatement set" where
  "reportBodyHop target allStatements =
     {st \<in> set allStatements.
        \<exists>c \<in> citationHop target allStatements. subjectEqualsObjectOf st c}"

definition reportPropertyHop :: "FideIdStatement \<Rightarrow> FideIdStatement list \<Rightarrow> FideIdStatement set" where
  "reportPropertyHop target allStatements =
     {st \<in> set allStatements.
        \<exists>r \<in> reportBodyHop target allStatements.
          predicateRawIdentifier r = SCHEMA_ADDITIONAL_PROPERTY_IRI
          \<and> subjectEqualsObjectOf st r}"

definition closureSpec :: "FideIdStatement \<Rightarrow> FideIdStatement list \<Rightarrow> FideIdStatement set" where
  "closureSpec target allStatements =
     {target} \<union> validityHop target allStatements \<union> citationHop target allStatements
       \<union> nameHop target allStatements \<union> affiliationHop target allStatements
       \<union> contradictionHop target allStatements \<union> reportBodyHop target allStatements
       \<union> reportPropertyHop target allStatements"

text \<open>
  The statements in the order in which the three loops put them into the map, and the
  invariant of the map: every entry is stored under its own statement identifier.
\<close>

definition closureInsertions :: "FideIdStatement \<Rightarrow> FideIdStatement list \<Rightarrow> FideIdStatement list" where
  "closureInsertions target allStatements =
     (target # validTemporalOf target allStatements @ citationsOf target allStatements
        @ namesOf target allStatements @ affiliationsOf target allStatements
        @ contradictionsOf target allStatements)
     @ reportStatementsOf target allStatements @ propertyNodeStatementsOf target allStatements"

definition keyed :: "(string \<times> FideIdStatement) list \<Rightarrow> bool" where
  "keyed m = (\<forall>(k, st) \<in> set m. k = statementFideId st)"

section \<open>The primary identity resolver\<close>

text \<open>
  \<^verbatim>\<open>findPrimaryFideId\<close> of \<^verbatim>\<open>scripts/smoke-local.ts\<close>. The fixture rows
  (\<^verbatim>\<open>ScenarioStatement\<close>) carry an optional statement identifier and an optional
  first-seen time, a JavaScript number that is modelled as an integer.
\<close>

record ScenarioStatement =
  statement_fide_id :: "string option"
  first_created_at :: "int option"
  subject_type :: string
  subject_raw_identifier :: string
  predicate_raw_identifier :: string
  object_type :: string
  object_raw_identifier :: string

record FixtureConfig =
  slug :: string
  label :: string
  scenarioDir :: string
  entityType :: string
  selectIdentifierContains :: "string option"
  selectNameContains :: "string option"

record PrimaryFideIdResult =
  primaryFideId :: string
  anchorSameAsStatementRawIdentifier :: string
  anchorValidFromStatementFideId :: "string option"
  anchorValidFromFirstSeenAt :: "int option"

record ValidFromCandidate =
  candStatementFideId :: "string option"
  candFirstSeenAt :: "int option"
  candSubjectRawIdentifier :: string

text \<open>What a rejected promise or a thrown exception carries.\<close>

datatype exn = IdentityDerivationFailed | FideIdParseFailed | TypeError | WriteFailed

text \<open>
  The collaborators that the code imports or that the host provides are parameters:
  \<^item> \<^verbatim>\<open>calculateStatementFideId(s, p, o)\<close>, \<open>None\<close> when it throws;
  \<^item> \<^verbatim>\<open>calculateFideId(entityType, sourceType, raw)\<close>, \<open>None\<close> when it throws;
  \<^item> \<^verbatim>\<open>a.localeCompare(b)\<close>, whose order is the host's collation;
  \<^item> \<^verbatim>\<open>Date.parse\<close>, \<open>None\<close> when the result is not a finite number;
  \<^item> \<^verbatim>\<open>parseFideId\<close>, giving entity type and source type, \<open>None\<close> when it throws.
\<close>

type_synonym statementIdentity = "string \<Rightarrow> string \<Rightarrow> string \<Rightarrow> string option"
type_synonym identity = "string \<Rightarrow> string \<Rightarrow> string \<Rightarrow> string option"
type_synonym collation = "string \<Rightarrow> string \<Rightarrow> int"
type_synonym dateParser = "string \<Rightarrow> int option"
type_synonym fideIdParser = "string \<Rightarrow> (string \<times> string) option"

definition MAX_SAFE_INTEGER :: int where
  "MAX_SAFE_INTEGER = 9007199254740991"

text \<open>\<^verbatim>\<open>s.startsWith(p)\<close>, \<^verbatim>\<open>s.includes(p)\<close> and \<^verbatim>\<open>s.split(sep)\<close> for a one-character separator.\<close>

definition startsWith :: "string \<Rightarrow> string \<Rightarrow> bool" where
  "startsWith s p = (take (length p) s = p)"

fun includesStr :: "string \<Rightarrow> string \<Rightarrow> bool" where
  "includesStr [] p = (p = [])"
| "includesStr (c # cs) p = (startsWith (c # cs) p \<or> includesStr cs p)"

fun splitOn :: "char \<Rightarrow> string \<Rightarrow> string list" where
  "splitOn sep [] = [[]]"
| "splitOn sep (c # cs) =
     (if c = sep then [] # splitOn sep cs
      else (case splitOn sep cs of
              [] \<Rightarrow> [[c]]
            | part # parts \<Rightarrow> (c # part) # parts))"

text \<open>
  \<^verbatim>\<open>Array.prototype.sort(cmp)\<close> is stable; for a comparator that is consistent the
  sorted array is determined, and it is the one that a stable insertion sort produces.
\<close>

fun insertBy :: "('a \<Rightarrow> 'a \<Rightarrow> int) \<Rightarrow> 'a \<Rightarrow> 'a list \<Rightarrow> 'a list" where
  "insertBy cmp x [] = [x]"
| "insertBy cmp x (y # ys) = (if cmp x y \<le> 0 then x # y # ys else y # insertBy cmp x ys)"

definition jsSort :: "('a \<Rightarrow> 'a \<Rightarrow> int) \<Rightarrow> 'a list \<Rightarrow> 'a list" where
  "jsSort cmp xs = foldr (insertBy cmp) xs []"

definition owlSameAsStatements ::
  "FixtureConfig \<Rightarrow> ScenarioStatement list \<Rightarrow> string \<Rightarrow> ScenarioStatement list"
where
  "owlSameAsStatements config statements focalIdentifier =
     filter (\<lambda>row. predicate_raw_identifier row = OWL_SAME_AS_IRI
                  \<and> subject_type row = entityType config
                  \<and> (subject_raw_identifier row = focalIdentifier
                     \<or> object_raw_identifier row = focalIdentifier)) statements"

text \<open>The set is filled with the identifiers that are present and not the empty string.\<close>

definition sameAsStatementIdSet ::
  "FixtureConfig \<Rightarrow> ScenarioStatement list \<Rightarrow> string \<Rightarrow> string set"
where
  "sameAsStatementIdSet config statements focalIdentifier =
     set (concat (map (\<lambda>row. case statement_fide_id row of
                               None \<Rightarrow> []
                             | Some i \<Rightarrow> (if i \<noteq> [] then [i] else []))
                      (owlSameAsStatements config statements focalIdentifier)))"

text \<open>
  The body of the loop over the rows: \<open>None\<close> is \<^verbatim>\<open>continue\<close>, also from the
  \<^verbatim>\<open>catch\<close> block, and \<open>Some\<close> is the candidate that is pushed.
\<close>

definition validFromCandidate ::
  "statementIdentity \<Rightarrow> string set \<Rightarrow> ScenarioStatement \<Rightarrow> ValidFromCandidate option"
where
  "validFromCandidate calculateStatementFideId idSet row =
     (if predicate_raw_identifier row \<noteq> SCHEMA_VALID_FROM_IRI then None
      else if subject_type row \<noteq> ''Statement'' then None
      else
        (let parts = splitOn (CHR ''|'') (subject_raw_identifier row)
         in if length parts \<noteq> 3 then None
            else if \<not> list_all (\<lambda>part. startsWith part ''did:fide:0x'') parts then None
            else
              (case calculateStatementFideId (parts ! 0) (parts ! 1) (parts ! 2) of
                 None \<Rightarrow> None
               | Some targetStatementFideId \<Rightarrow>
                   (if targetStatementFideId \<notin> idSet then None
                    else Some \<lparr>candStatementFideId = statement_fide_id row,
                               candFirstSeenAt = first_created_at row,
                               candSubjectRawIdentifier = subject_raw_identifier row\<rparr>))))"

definition validFromCandidatesOf ::
  "statementIdentity \<Rightarrow> string set \<Rightarrow> ScenarioStatement list \<Rightarrow> ValidFromCandidate list"
where
  "validFromCandidatesOf calculateStatementFideId idSet statements =
     List.map_filter (validFromCandidate calculateStatementFideId idSet) statements"

definition compareCandidates :: "collation \<Rightarrow> ValidFromCandidate \<Rightarrow> ValidFromCandidate \<Rightarrow> int" where
  "compareCandidates localeCompare a b =
     (let aT = (case candFirstSeenAt a of None \<Rightarrow> MAX_SAFE_INTEGER | Some t \<Rightarrow> t);
          bT = (case candFirstSeenAt b of None \<Rightarrow> MAX_SAFE_INTEGER | Some t \<Rightarrow> t)
      in if aT \<noteq> bT then aT - bT
         else
           (let aid = (case candStatementFideId a of None \<Rightarrow> ''~'' | Some i \<Rightarrow> i);
                bid = (case candStatementFideId b of None \<Rightarrow> ''~'' | Some i \<Rightarrow> i)
            in if aid \<noteq> bid then localeCompare aid bid
               else localeCompare (candSubjectRawIdentifier a) (candSubjectRawIdentifier b)))"

definition rankCandidates :: "collation \<Rightarrow> ValidFromCandidate list \<Rightarrow> ValidFromCandidate list" where
  "rankCandidates localeCompare validFromCandidates =
     jsSort (compareCandidates localeCompare) validFromCandidates"

definition findPrimaryFideId ::
  "collation \<Rightarrow> statementIdentity \<Rightarrow> identity \<Rightarrow> FixtureConfig \<Rightarrow> ScenarioStatement list
     \<Rightarrow> string \<Rightarrow> exn + PrimaryFideIdResult option"
where
  "findPrimaryFideId localeCompare calculateStatementFideId calculateFideId config statements
       focalIdentifier =
     (let idSet = sameAsStatementIdSet config statements focalIdentifier;
          validFromCandidates = validFromCandidatesOf calculateStatementFideId idSet statements
      in if validFromCandidates = [] then Inr None
         else
           (case rankCandidates localeCompare validFromCandidates of
              [] \<Rightarrow> Inl TypeError
            | winner # _ \<Rightarrow>
                (case calculateFideId (entityType config) ''Statement''
                        (candSubjectRawIdentifier winner) of
                   None \<Rightarrow> Inl IdentityDerivationFailed
                 | Some pid \<Rightarrow>
                     Inr (Some \<lparr>primaryFideId = pid,
                                 anchorSameAsStatementRawIdentifier =
                                   candSubjectRawIdentifier winner,
                                 anchorValidFromStatementFideId = candStatementFideId winner,
                                 anchorValidFromFirstSeenAt = candFirstSeenAt winner\<rparr>))))"

subsection \<open>The claim identifiers and the candidates as the specification words them\<close>

text \<open>
  The claim identifiers of the focal value as the first step of the specified algorithm
  collects them: the statement identifiers, present and not the empty string, of the
  same-as statements of the configured entity type whose subject or object raw value is
  the focal value.
\<close>

definition focalClaimIds :: "FixtureConfig \<Rightarrow> ScenarioStatement list \<Rightarrow> string \<Rightarrow> string set" where
  "focalClaimIds config statements focal =
     {i. i \<noteq> []
         \<and> (\<exists>row \<in> set statements.
               predicate_raw_identifier row = OWL_SAME_AS_IRI
               \<and> subject_type row = entityType config
               \<and> (subject_raw_identifier row = focal \<or> object_raw_identifier row = focal)
               \<and> statement_fide_id row = Some i)}"

subsection \<open>Two collations\<close>

text \<open>
  The comparison of strings by their characters' codes, first difference deciding: the
  lexicographic order, in which the tilde stands after every digit and letter.
\<close>

definition codeUnitCompare :: collation where
  "codeUnitCompare a b = (if a = b then 0 else if a < b then - 1 else 1)"

text \<open>
  The order of the host's \<^verbatim>\<open>localeCompare\<close>, the Unicode collation, on strings of
  ASCII: punctuation and symbols stand before the digits and the digits before the
  letters, and the case of a letter only breaks a tie, the lower case first. Every
  character has a weight, the first difference of weights decides, and strings of equal
  weights are told apart by the case of their letters. Among the symbols themselves the
  weights keep the order of the codes, on which nothing below depends.
\<close>

definition collationWeight :: "char \<Rightarrow> nat" where
  "collationWeight c =
     (let n = (of_char c :: nat) in
      if 97 \<le> n \<and> n \<le> 122 then 1000 + (n - 97)
      else if 65 \<le> n \<and> n \<le> 90 then 1000 + (n - 65)
      else if 48 \<le> n \<and> n \<le> 57 then 500 + (n - 48)
      else n)"

definition symbolsFirstCompare :: collation where
  "symbolsFirstCompare a b =
     (if map collationWeight a < map collationWeight b then - 1
      else if map collationWeight b < map collationWeight a then 1
      else if a = b then 0
      else if b < a then - 1
      else 1)"

definition isFideId :: "string \<Rightarrow> bool" where
  "isFideId s = startsWith s ''did:fide:0x''"

text \<open>
  A row is a validFrom statement about a statement that re-derives to a claim: its
  subject raw value consists of three identifiers separated by pipes, and the statement
  identity of the three is a member of the claim-identifier set.
\<close>

definition rederivesToClaim ::
  "statementIdentity \<Rightarrow> string set \<Rightarrow> ScenarioStatement \<Rightarrow> bool"
where
  "rederivesToClaim calculateStatementFideId claimIds row \<longleftrightarrow>
     predicate_raw_identifier row = SCHEMA_VALID_FROM_IRI
     \<and> subject_type row = ''Statement''
     \<and> (\<exists>a b c i.
           subject_raw_identifier row = a @ ''|'' @ b @ ''|'' @ c
           \<and> CHR ''|'' \<notin> set a \<union> set b \<union> set c
           \<and> isFideId a \<and> isFideId b \<and> isFideId c
           \<and> calculateStatementFideId a b c = Some i \<and> i \<in> claimIds)"

text \<open>
  A row is malformed for the resolver when its subject raw value does not split into
  exactly three components that all begin with the identifier prefix.
\<close>

definition malformedSubject :: "ScenarioStatement \<Rightarrow> bool" where
  "malformedSubject row \<longleftrightarrow>
     \<not> (\<exists>a b c. splitOn (CHR ''|'') (subject_raw_identifier row) = [a, b, c]
                \<and> isFideId a \<and> isFideId b \<and> isFideId c)"

definition rederivationThrows :: "statementIdentity \<Rightarrow> ScenarioStatement \<Rightarrow> bool" where
  "rederivationThrows calculateStatementFideId row \<longleftrightarrow>
     (\<exists>a b c. splitOn (CHR ''|'') (subject_raw_identifier row) = [a, b, c]
              \<and> calculateStatementFideId a b c = None)"

text \<open>The same rows with other values as the objects of the validFrom rows.\<close>

definition withValidFromDates ::
  "(ScenarioStatement \<Rightarrow> string) \<Rightarrow> ScenarioStatement list \<Rightarrow> ScenarioStatement list"
where
  "withValidFromDates date statements =
     map (\<lambda>row. if predicate_raw_identifier row = SCHEMA_VALID_FROM_IRI
                 then row\<lparr>object_raw_identifier := date row\<rparr> else row) statements"

section \<open>The vocabulary term index\<close>

text \<open>
  \<^verbatim>\<open>loadVocabularyIndex\<close>: the snapshots are JSON-LD documents. A file that cannot be
  read or parsed is passed over, so the input is the list of the parse results in load
  order, \<open>None\<close> for such a file. The promise that caches the index is not modelled.
\<close>

datatype json =
  JNull | JBool bool | JNumber rat | JString string | JArray "json list"
  | JObject "(string \<times> json) list"

datatype termKind = KindEntityType | KindPredicate | KindOther

record PromptDefinitionEntry =
  termId :: string
  kind :: termKind
  entryLabel :: "string option"
  entryDefinition :: "string option"
  category :: "string option"
  equivalentClass :: "string list"
  subClassOf :: "string list"

type_synonym VocabularyIndex = "string \<Rightarrow> PromptDefinitionEntry option"

text \<open>
  \<^verbatim>\<open>value[key]\<close> on a parsed value: of an object the member of that name, the last one
  when the document repeats the name, and undefined otherwise.
\<close>

definition jsGet :: "json \<Rightarrow> string \<Rightarrow> json option" where
  "jsGet v key = (case v of JObject members \<Rightarrow> map_of (rev members) key | _ \<Rightarrow> None)"

fun getJsonLdText :: "json \<Rightarrow> string option"
  and firstJsonLdText :: "json list \<Rightarrow> string option"
where
  "getJsonLdText JNull = None"
| "getJsonLdText (JBool b) = None"
| "getJsonLdText (JNumber n) = None"
| "getJsonLdText (JString s) = (if s = [] then None else Some s)"
| "getJsonLdText (JArray items) = firstJsonLdText items"
| "getJsonLdText (JObject members) =
     (case map_of (rev members) ''@value'' of
        Some (JString s) \<Rightarrow> Some s
      | _ \<Rightarrow>
          (case map_of (rev members) ''@id'' of
             Some (JString s) \<Rightarrow> Some s
           | _ \<Rightarrow> None))"
| "firstJsonLdText [] = None"
| "firstJsonLdText (item # items) =
     (case getJsonLdText item of
        None \<Rightarrow> firstJsonLdText items
      | Some extracted \<Rightarrow> (if extracted \<noteq> [] then Some extracted else firstJsonLdText items))"

fun getJsonLdIds :: "json \<Rightarrow> string list"
  and allJsonLdIds :: "json list \<Rightarrow> string list"
where
  "getJsonLdIds (JArray items) = allJsonLdIds items"
| "getJsonLdIds (JObject members) =
     (case map_of (rev members) ''@id'' of Some (JString s) \<Rightarrow> [s] | _ \<Rightarrow> [])"
| "getJsonLdIds JNull = []"
| "getJsonLdIds (JBool b) = []"
| "getJsonLdIds (JNumber n) = []"
| "getJsonLdIds (JString s) = []"
| "allJsonLdIds [] = []"
| "allJsonLdIds (item # items) = getJsonLdIds item @ allJsonLdIds items"

text \<open>The same two functions on a member that may be absent.\<close>

definition textOf :: "json option \<Rightarrow> string option" where
  "textOf v = (case v of None \<Rightarrow> None | Some j \<Rightarrow> getJsonLdText j)"

definition idsOf :: "json option \<Rightarrow> string list" where
  "idsOf v = (case v of None \<Rightarrow> [] | Some j \<Rightarrow> getJsonLdIds j)"

definition sliceAfter :: "string \<Rightarrow> string \<Rightarrow> string" where
  "sliceAfter iri p = drop (length p) iri"

definition toKnownCurie :: "string \<Rightarrow> string" where
  "toKnownCurie iri =
     (if startsWith iri ''https://fide.work/vocab#''
        then ''fide:'' @ sliceAfter iri ''https://fide.work/vocab#''
      else if startsWith iri ''https://schema.org/''
        then ''schema:'' @ sliceAfter iri ''https://schema.org/''
      else if startsWith iri ''http://www.w3.org/2000/01/rdf-schema#''
        then ''rdfs:'' @ sliceAfter iri ''http://www.w3.org/2000/01/rdf-schema#''
      else if startsWith iri ''http://www.w3.org/2002/07/owl#''
        then ''owl:'' @ sliceAfter iri ''http://www.w3.org/2002/07/owl#''
      else if startsWith iri ''https://www.w3.org/2002/07/owl#''
        then ''owl:'' @ sliceAfter iri ''https://www.w3.org/2002/07/owl#''
      else if startsWith iri ''http://www.w3.org/ns/prov#''
        then ''prov:'' @ sliceAfter iri ''http://www.w3.org/ns/prov#''
      else if startsWith iri ''https://www.w3.org/ns/prov#''
        then ''prov:'' @ sliceAfter iri ''https://www.w3.org/ns/prov#''
      else if startsWith iri ''http://www.w3.org/1999/02/22-rdf-syntax-ns#''
        then ''rdf:'' @ sliceAfter iri ''http://www.w3.org/1999/02/22-rdf-syntax-ns#''
      else if startsWith iri ''http://www.w3.org/2001/XMLSchema#''
        then ''xsd:'' @ sliceAfter iri ''http://www.w3.org/2001/XMLSchema#''
      else if startsWith iri ''http://www.w3.org/ns/org#''
        then ''org:'' @ sliceAfter iri ''http://www.w3.org/ns/org#''
      else if startsWith iri ''https://w3id.org/security#''
        then ''sec:'' @ sliceAfter iri ''https://w3id.org/security#''
      else iri)"

text \<open>
  The identifier under which a graph node is indexed: the node is an object (an array
  has no such member), and its \<^verbatim>\<open>@id\<close> is a string that is not empty.
\<close>

definition nodeId :: "json \<Rightarrow> string option" where
  "nodeId node =
     (case jsGet node ''@id'' of
        Some (JString s) \<Rightarrow> (if s = [] then None else Some s)
      | _ \<Rightarrow> None)"

definition definitionOf :: "json \<Rightarrow> string \<Rightarrow> PromptDefinitionEntry" where
  "definitionOf node curie =
     \<lparr>termId = curie,
      kind = (if startsWith curie ''fide:'' then KindEntityType
              else if includesStr curie '':'' then KindPredicate else KindOther),
      entryLabel = (case textOf (jsGet node ''rdfs:label'') of
                      Some l \<Rightarrow> Some l
                    | None \<Rightarrow> textOf (jsGet node ''schema:name'')),
      entryDefinition = textOf (jsGet node ''rdfs:comment''),
      category = textOf (jsGet node ''schema:category''),
      equivalentClass = map toKnownCurie (idsOf (jsGet node ''owl:equivalentClass'')),
      subClassOf = map toKnownCurie (idsOf (jsGet node ''rdfs:subClassOf''))\<rparr>"

text \<open>The body of the loop over the nodes of a graph; \<^verbatim>\<open>index.set\<close> overwrites.\<close>

definition indexNode :: "VocabularyIndex \<Rightarrow> json \<Rightarrow> VocabularyIndex" where
  "indexNode index node =
     (case nodeId node of
        None \<Rightarrow> index
      | Some i \<Rightarrow>
          (let curie = toKnownCurie i;
               entry = definitionOf node curie
           in index(curie \<mapsto> entry, i \<mapsto> entry)))"

text \<open>
  The graph of a parsed document; reading a member of \<^verbatim>\<open>null\<close> throws, any other
  value without an array under \<^verbatim>\<open>@graph\<close> has the empty graph.
\<close>

definition graphOf :: "json \<Rightarrow> exn + json list" where
  "graphOf parsed =
     (if parsed = JNull then Inl TypeError
      else (case jsGet parsed ''@graph'' of Some (JArray graph) \<Rightarrow> Inr graph | _ \<Rightarrow> Inr []))"

fun loadFiles :: "json option list \<Rightarrow> VocabularyIndex \<Rightarrow> exn + VocabularyIndex" where
  "loadFiles [] index = Inr index"
| "loadFiles (None # files) index = loadFiles files index"
| "loadFiles (Some parsed # files) index =
     (case graphOf parsed of
        Inl e \<Rightarrow> Inl e
      | Inr graph \<Rightarrow> loadFiles files (fold (\<lambda>node idx. indexNode idx node) graph index))"

definition loadVocabularyIndex :: "json option list \<Rightarrow> exn + VocabularyIndex" where
  "loadVocabularyIndex files = loadFiles files Map.empty"

text \<open>\<^verbatim>\<open>index.get(key)\<close> on the index that the loader returned.\<close>

definition lookupTerm :: "exn + VocabularyIndex \<Rightarrow> string \<Rightarrow> PromptDefinitionEntry option" where
  "lookupTerm loaded key = (case loaded of Inl e \<Rightarrow> None | Inr index \<Rightarrow> index key)"

subsection \<open>Which node defines a key\<close>

text \<open>
  A node defines the keys under which it is stored: its identifier and the compact form
  of its identifier. The nodes of the snapshots in load order are those of the graphs,
  file after file.
\<close>

definition definesKey :: "string \<Rightarrow> json \<Rightarrow> bool" where
  "definesKey key node =
     (case nodeId node of None \<Rightarrow> False | Some i \<Rightarrow> i = key \<or> toKnownCurie i = key)"

definition entryOf :: "json \<Rightarrow> PromptDefinitionEntry" where
  "entryOf node = definitionOf node (toKnownCurie (the (nodeId node)))"

definition nodesOf :: "json option \<Rightarrow> json list" where
  "nodesOf file =
     (case file of
        None \<Rightarrow> []
      | Some parsed \<Rightarrow> (case graphOf parsed of Inl e \<Rightarrow> [] | Inr graph \<Rightarrow> graph))"

definition loadedNodes :: "json option list \<Rightarrow> json list" where
  "loadedNodes files = concat (map nodesOf files)"

text \<open>The last element of a list with a property, if there is one.\<close>

definition findLast :: "('a \<Rightarrow> bool) \<Rightarrow> 'a list \<Rightarrow> 'a option" where
  "findLast P xs = List.find P (rev xs)"

section \<open>The consideration router\<close>

text \<open>
  \<^verbatim>\<open>runPromptAtomic\<close> and its helpers. The statements are the batch after it has
  been loaded and converted. Of the rendering of a prompt the model keeps what can end
  the run: the identifiers that are parsed for the terms of the definitions, the
  vocabulary index that is awaited, the lookup of the fallback definitions and the write
  of the file; the text of the prompt is not built. A generated unit is recorded by its
  consideration, its evidence statement, its output path and the number of its
  supporting statements.
\<close>

datatype AtomicConsideration =
  citation_chain | explicit_contradiction | name_alignment | affiliation_overlap
  | valid_from_timestamp

definition ALL_ATOMIC_CONSIDERATIONS :: "AtomicConsideration list" where
  "ALL_ATOMIC_CONSIDERATIONS =
     [citation_chain, explicit_contradiction, name_alignment, affiliation_overlap,
      valid_from_timestamp]"

text \<open>A value of type \<^verbatim>\<open>string | null\<close> is truthy when it is a string that is not empty.\<close>

definition truthy :: "string option \<Rightarrow> bool" where
  "truthy v = (case v of None \<Rightarrow> False | Some s \<Rightarrow> s \<noteq> [])"

definition normalizeAtomicConsideration :: "string option \<Rightarrow> AtomicConsideration option" where
  "normalizeAtomicConsideration v =
     (if \<not> truthy v then None
      else if v = Some ''citation_chain'' then Some citation_chain
      else if v = Some ''explicit_contradiction'' then Some explicit_contradiction
      else if v = Some ''name_alignment'' then Some name_alignment
      else if v = Some ''affiliation_overlap'' then Some affiliation_overlap
      else if v = Some ''valid_from_timestamp'' then Some valid_from_timestamp
      else None)"

datatype flagValue = FlagString string | FlagBool bool

type_synonym flags = "string \<Rightarrow> flagValue option"

definition getStringFlag :: "flags \<Rightarrow> string \<Rightarrow> string option" where
  "getStringFlag flags key =
     (case flags key of Some (FlagString v) \<Rightarrow> Some v | _ \<Rightarrow> None)"

definition hasFlag :: "flags \<Rightarrow> string \<Rightarrow> bool" where
  "hasFlag flags key = (flags key \<noteq> None)"

text \<open>
  Every way in which a run ends without success: the cases that print a message and
  return 1, and an exception that escapes.
\<close>

datatype failure =
    MissingStatementFlag
  | InvalidConsideration
  | OutFlagNotAccepted
  | EvidenceRequiresConsideration
  | TargetNotFound string
  | NotSameAsStatement string
  | MethodCriteriaNotMet string
  | NoAnchorValidFrom
  | NoPrimarySourceForAnchor
  | NoEvidenceAvailable AtomicConsideration
  | EvidenceNotInPool AtomicConsideration string
  | NoEvidenceSelected AtomicConsideration
  | NoPromptsGenerated
  | Threw exn

record ConsiderationSummary =
  sumConsideration :: AtomicConsideration
  evidencePoolCount :: nat
  generatedCount :: nat
  skippedReason :: "string option"

record GeneratedPrompt =
  genConsideration :: AtomicConsideration
  evidenceStatementFideId :: string
  outPath :: string
  supportingStatementCount :: nat

record PromptAtomicSummary =
  targetSameAsStatementFideId :: string
  selectedConsiderations :: "AtomicConsideration list"
  totalGeneratedCount :: nat
  considerationSummaries :: "ConsiderationSummary list"
  generated :: "GeneratedPrompt list"

text \<open>
  Within one pass of the loop over the considerations: \<open>Fatal\<close> is \<^verbatim>\<open>return 1\<close>,
  \<open>Skip\<close> is the summary that is pushed before \<^verbatim>\<open>continue\<close>, \<open>Proceed\<close> goes on.
\<close>

datatype 'a step = Fatal failure | Skip ConsiderationSummary | Proceed 'a

definition passesPersonMethodCriteria :: "fideIdParser \<Rightarrow> FideIdStatement \<Rightarrow> exn + string option" where
  "passesPersonMethodCriteria parseFideId statement =
     (if predicateRawIdentifier statement \<noteq> OWL_SAME_AS_IRI
      then Inr (Some ''Target statement predicate must be owl:sameAs.'')
      else
        (case parseFideId (subjectFideId statement) of
           None \<Rightarrow> Inl FideIdParseFailed
         | Some (subjectType, sourceType) \<Rightarrow>
             (if subjectType \<noteq> ''Person''
              then Inr (Some (''Person method requires Person subject type. Found: ''
                               @ subjectType @ ''.''))
              else Inr None)))"

definition pickAtomicEvidencePool ::
  "AtomicConsideration \<Rightarrow> FideIdStatement \<Rightarrow> FideIdStatement list \<Rightarrow> FideIdStatement list"
where
  "pickAtomicEvidencePool consideration target contextStatements =
     (if consideration = citation_chain then
        filter (\<lambda>st. predicateRawIdentifier st = PROV_HAD_PRIMARY_SOURCE_IRI) contextStatements
      else if consideration = explicit_contradiction then
        filter (\<lambda>st. predicateRawIdentifier st = OWL_DIFFERENT_FROM_IRI) contextStatements
      else if consideration = name_alignment then
        filter (\<lambda>st. predicateRawIdentifier st = SCHEMA_NAME_IRI) contextStatements
      else if consideration = affiliation_overlap then
        filter (\<lambda>st. predicateRawIdentifier st \<in> PERSON_AFFILIATION_PREDICATES) contextStatements
      else
        filter (\<lambda>st. predicateRawIdentifier st = SCHEMA_VALID_FROM_IRI
                     \<and> matchesStatementReference st target) contextStatements)"

text \<open>The comparator \<^verbatim>\<open>av - bv || a.statementFideId.localeCompare(b.statementFideId)\<close>.\<close>

definition compareByObjectDate ::
  "collation \<Rightarrow> dateParser \<Rightarrow> FideIdStatement \<Rightarrow> FideIdStatement \<Rightarrow> int"
where
  "compareByObjectDate localeCompare dateParse a b =
     (let av = (case dateParse (objectRawIdentifier a) of None \<Rightarrow> MAX_SAFE_INTEGER | Some t \<Rightarrow> t);
          bv = (case dateParse (objectRawIdentifier b) of None \<Rightarrow> MAX_SAFE_INTEGER | Some t \<Rightarrow> t)
      in if av - bv \<noteq> 0 then av - bv
         else localeCompare (statementFideId a) (statementFideId b))"

definition pickAtomicRequiredAnchor ::
  "collation \<Rightarrow> dateParser \<Rightarrow> AtomicConsideration \<Rightarrow> FideIdStatement \<Rightarrow> FideIdStatement
     \<Rightarrow> FideIdStatement list \<Rightarrow> FideIdStatement list"
where
  "pickAtomicRequiredAnchor localeCompare dateParse consideration target evidence contextStatements =
     (let bySubject =
            (case List.find (\<lambda>st. statementFideId st = subjectFideId evidence) contextStatements of
               None \<Rightarrow> []
             | Some anchor \<Rightarrow> [anchor])
      in if consideration = citation_chain then
           (case List.find (\<lambda>st. statementFideId st = subjectFideId evidence
                                 \<and> predicateRawIdentifier st = SCHEMA_VALID_FROM_IRI)
                   contextStatements of
              Some directValidFrom \<Rightarrow> [directValidFrom]
            | None \<Rightarrow>
                (case jsSort (compareByObjectDate localeCompare dateParse)
                        (filter (\<lambda>st. predicateRawIdentifier st = SCHEMA_VALID_FROM_IRI
                                      \<and> matchesStatementReference st target)
                           contextStatements) of
                   relatedValidFrom # _ \<Rightarrow> [relatedValidFrom]
                 | [] \<Rightarrow> bySubject))
         else bySubject)"

definition collectPrimarySourceLinksForStatement ::
  "FideIdStatement \<Rightarrow> FideIdStatement list \<Rightarrow> FideIdStatement list"
where
  "collectPrimarySourceLinksForStatement target contextStatements =
     (let raw = statementRawOf target
      in filter (\<lambda>st. predicateRawIdentifier st = PROV_HAD_PRIMARY_SOURCE_IRI
                     \<and> (subjectFideId st = statementFideId target
                        \<or> subjectRawIdentifier st = statementFideId target
                        \<or> subjectRawIdentifier st = raw)) contextStatements)"

definition isReportBackedPrimarySource :: "FideIdStatement \<Rightarrow> bool" where
  "isReportBackedPrimarySource statement =
     (if predicateRawIdentifier statement \<noteq> PROV_HAD_PRIMARY_SOURCE_IRI then False
      else if \<not> (startsWith (objectRawIdentifier statement) ''http://''
                  \<or> startsWith (objectRawIdentifier statement) ''https://'') then False
      else includesStr (objectRawIdentifier statement) ''/evidence/reports/'')"

text \<open>
  The anchor candidates of the citation-chain consideration as the loop of
  \<^verbatim>\<open>runPromptAtomic\<close> computes them: the validFrom statements of the context that
  reference the target, sorted by \<^verbatim>\<open>a.statementFideId.localeCompare(b.statementFideId)\<close>.
\<close>

definition anchorCandidatesOf ::
  "collation \<Rightarrow> FideIdStatement \<Rightarrow> FideIdStatement list \<Rightarrow> FideIdStatement list"
where
  "anchorCandidatesOf localeCompare target contextStatements =
     jsSort (\<lambda>a b. localeCompare (statementFideId a) (statementFideId b))
       (filter (\<lambda>st. predicateRawIdentifier st = SCHEMA_VALID_FROM_IRI
                     \<and> matchesStatementReference st target) contextStatements)"

definition skipped :: "AtomicConsideration \<Rightarrow> nat \<Rightarrow> string \<Rightarrow> ConsiderationSummary" where
  "skipped consideration poolCount reason =
     \<lparr>sumConsideration = consideration, evidencePoolCount = poolCount, generatedCount = 0,
      skippedReason = Some reason\<rparr>"

text \<open>
  The first part of the loop body: the evidence pool of the current consideration and
  the supporting statements that go with it, or the way out.
\<close>

definition resolveEvidencePool ::
  "collation \<Rightarrow> AtomicConsideration option \<Rightarrow> FideIdStatement \<Rightarrow> FideIdStatement list
     \<Rightarrow> AtomicConsideration \<Rightarrow> (FideIdStatement list \<times> FideIdStatement list) step"
where
  "resolveEvidencePool localeCompare consideration target contextStatements currentConsideration =
     (let evidencePool = pickAtomicEvidencePool currentConsideration target contextStatements
      in if currentConsideration = citation_chain then
           (case anchorCandidatesOf localeCompare target contextStatements of
              [] \<Rightarrow>
                (if consideration \<noteq> None then Fatal NoAnchorValidFrom
                 else Skip (skipped currentConsideration 0
                              ''No anchor validFrom statement found.''))
            | anchorValidity # _ \<Rightarrow>
                (let primarySourceForAnchorValidity =
                       filter isReportBackedPrimarySource
                         (collectPrimarySourceLinksForStatement anchorValidity contextStatements)
                 in if primarySourceForAnchorValidity = [] then
                      (if consideration \<noteq> None then Fatal NoPrimarySourceForAnchor
                       else Skip (skipped currentConsideration 0
                         ''No primary-source evidence statements found for anchor validFrom statement.''))
                    else Proceed (primarySourceForAnchorValidity, [anchorValidity])))
         else if evidencePool = [] then
           (if consideration \<noteq> None then Fatal (NoEvidenceAvailable currentConsideration)
            else Skip (skipped currentConsideration 0 ''No evidence statements available.''))
         else Proceed (evidencePool, []))"

text \<open>The second part: the evidence that is selected from the pool.\<close>

definition selectEvidence ::
  "AtomicConsideration option \<Rightarrow> string option \<Rightarrow> AtomicConsideration \<Rightarrow> FideIdStatement list
     \<Rightarrow> FideIdStatement list step"
where
  "selectEvidence consideration explicitEvidenceStatementId currentConsideration evidencePool =
     (case (if truthy explicitEvidenceStatementId then
              (case List.find (\<lambda>st. Some (statementFideId st) = explicitEvidenceStatementId)
                      evidencePool of
                 None \<Rightarrow> Inl (EvidenceNotInPool currentConsideration
                               (the explicitEvidenceStatementId))
               | Some matched \<Rightarrow> Inr [matched])
            else Inr evidencePool) of
        Inl f \<Rightarrow> Fatal f
      | Inr selectedEvidence \<Rightarrow>
          (if selectedEvidence = [] then
             (if consideration \<noteq> None then Fatal (NoEvidenceSelected currentConsideration)
              else Skip (skipped currentConsideration (length evidencePool)
                           ''No evidence statements selected.''))
           else Proceed selectedEvidence))"

subsection \<open>One evidence unit\<close>

text \<open>
  The type \<^verbatim>\<open>AtomicConsideration\<close> is a union of string literals; this is the string of
  a consideration.
\<close>

definition considerationText :: "AtomicConsideration \<Rightarrow> string" where
  "considerationText consideration =
     (case consideration of
        citation_chain \<Rightarrow> ''citation_chain''
      | explicit_contradiction \<Rightarrow> ''explicit_contradiction''
      | name_alignment \<Rightarrow> ''name_alignment''
      | affiliation_overlap \<Rightarrow> ''affiliation_overlap''
      | valid_from_timestamp \<Rightarrow> ''valid_from_timestamp'')"

text \<open>
  \<^verbatim>\<open>shortFideSuffix\<close> and \<^verbatim>\<open>slugifyIdentifier\<close> of \<^verbatim>\<open>shared.ts\<close>. The slug replaces
  every run of characters other than the letters and digits of ASCII by one hyphen,
  removes the hyphens at the two ends and puts the letters in lower case.
\<close>

definition shortFideSuffix :: "string \<Rightarrow> string" where
  "shortFideSuffix v =
     take 12 (if startsWith v ''did:fide:0x'' then drop (length ''did:fide:0x'') v else v)"

definition isAsciiAlphanumeric :: "char \<Rightarrow> bool" where
  "isAsciiAlphanumeric c =
     (let n = (of_char c :: nat)
      in (48 \<le> n \<and> n \<le> 57) \<or> (65 \<le> n \<and> n \<le> 90) \<or> (97 \<le> n \<and> n \<le> 122))"

fun hyphenateRuns :: "bool \<Rightarrow> string \<Rightarrow> string" where
  "hyphenateRuns inRun [] = []"
| "hyphenateRuns inRun (c # cs) =
     (if isAsciiAlphanumeric c then c # hyphenateRuns False cs
      else if inRun then hyphenateRuns True cs
      else CHR ''-'' # hyphenateRuns True cs)"

definition toLowerCaseAscii :: "char \<Rightarrow> char" where
  "toLowerCaseAscii c =
     (let n = (of_char c :: nat) in if 65 \<le> n \<and> n \<le> 90 then char_of (n + 32) else c)"

definition slugifyIdentifier :: "string \<Rightarrow> string" where
  "slugifyIdentifier v =
     map toLowerCaseAscii
       (rev (dropWhile (\<lambda>c. c = CHR ''-'')
          (rev (dropWhile (\<lambda>c. c = CHR ''-'') (hyphenateRuns False v)))))"

definition defaultEvalPromptAtomicOutPath :: "AtomicConsideration \<Rightarrow> string \<Rightarrow> string \<Rightarrow> string" where
  "defaultEvalPromptAtomicOutPath consideration targetStatementFideId evidenceId =
     (let statementSlug = slugifyIdentifier targetStatementFideId;
          evidenceShort = shortFideSuffix evidenceId
      in ''_scratch/evals/prompts'' @ ''/'' @ ''temporal-validity/owl-sameAs/Person'' @ ''/''
         @ statementSlug @ ''/''
         @ considerationText consideration @ ''--'' @ evidenceShort @ ''.md'')"

text \<open>
  \<^verbatim>\<open>writeUtf8(path, content)\<close> creates the directory and writes the file; whether that
  succeeds at a path is the file system's matter, \<open>False\<close> is a rejected promise.
\<close>

type_synonym fileWriter = "string \<Rightarrow> bool"

definition toFideTypeCurie :: "string \<Rightarrow> string" where
  "toFideTypeCurie typeName = ''fide:'' @ typeName"

definition toPredicateCurie :: "string \<Rightarrow> string" where
  "toPredicateCurie iri =
     (if startsWith iri ''https://schema.org/''
        then ''schema:'' @ sliceAfter iri ''https://schema.org/''
      else if startsWith iri ''https://www.w3.org/ns/prov#''
        then ''prov:'' @ sliceAfter iri ''https://www.w3.org/ns/prov#''
      else if startsWith iri ''https://www.w3.org/2002/07/owl#''
        then ''owl:'' @ sliceAfter iri ''https://www.w3.org/2002/07/owl#''
      else if startsWith iri ''https://www.w3.org/1999/02/22-rdf-syntax-ns#''
        then ''rdf:'' @ sliceAfter iri ''https://www.w3.org/1999/02/22-rdf-syntax-ns#''
      else iri)"

definition curieToIri :: "string \<Rightarrow> string option" where
  "curieToIri curie =
     (case splitOn (CHR '':'') curie of
        curiePrefix # localName # _ \<Rightarrow>
          (if curiePrefix = [] \<or> localName = [] then None
           else if curiePrefix = ''fide'' then Some (''https://fide.work/vocab#'' @ localName)
           else if curiePrefix = ''schema'' then Some (''https://schema.org/'' @ localName)
           else if curiePrefix = ''prov'' then Some (''http://www.w3.org/ns/prov#'' @ localName)
           else if curiePrefix = ''owl'' then Some (''http://www.w3.org/2002/07/owl#'' @ localName)
           else if curiePrefix = ''rdf'' then Some (''http://www.w3.org/1999/02/22-rdf-syntax-ns#'' @ localName)
           else if curiePrefix = ''rdfs'' then Some (''http://www.w3.org/2000/01/rdf-schema#'' @ localName)
           else if curiePrefix = ''xsd'' then Some (''http://www.w3.org/2001/XMLSchema#'' @ localName)
           else if curiePrefix = ''org'' then Some (''http://www.w3.org/ns/org#'' @ localName)
           else if curiePrefix = ''sec'' then Some (''https://w3id.org/security#'' @ localName)
           else None)
      | _ \<Rightarrow> None)"

text \<open>
  The terms that \<^verbatim>\<open>addStatementTerms\<close> adds for one statement; \<^verbatim>\<open>parseFideId\<close> is
  called on the subject and on the object identifier, and an exception there leaves the
  run.
\<close>

definition addStatementTerms :: "fideIdParser \<Rightarrow> FideIdStatement \<Rightarrow> exn + string list" where
  "addStatementTerms parseFideId statement =
     (case parseFideId (subjectFideId statement) of
        None \<Rightarrow> Inl FideIdParseFailed
      | Some (subjectEntityType, subjectSourceType) \<Rightarrow>
          (case parseFideId (objectFideId statement) of
             None \<Rightarrow> Inl FideIdParseFailed
           | Some (objectEntityType, objectSourceType) \<Rightarrow>
               Inr [toFideTypeCurie subjectEntityType, toFideTypeCurie subjectSourceType,
                    toFideTypeCurie objectEntityType, toFideTypeCurie objectSourceType,
                    toPredicateCurie (predicateRawIdentifier statement)]))"

text \<open>
  Of \<^verbatim>\<open>buildPrimarySourceReportLines\<close> the terms with which its lines begin, which are
  what the pattern of \<^verbatim>\<open>collectTermsForDefinitions\<close> takes from them: a line for the
  name, the version and the description of the report when the first statement of the
  report with that predicate has an object that is not empty, and a line for the sources
  when the report names one; the lines of the sources themselves and the line
  \<^verbatim>\<open>none\<close> match no term.
\<close>

definition reportLineTerms :: "FideIdStatement \<Rightarrow> FideIdStatement list \<Rightarrow> string list" where
  "reportLineTerms evidence contextStatements =
     (if predicateRawIdentifier evidence \<noteq> PROV_HAD_PRIMARY_SOURCE_IRI then []
      else
        (let reportStatements =
               filter (\<lambda>statement. subjectFideId statement = objectFideId evidence
                          \<or> subjectRawIdentifier statement = objectRawIdentifier evidence)
                 contextStatements;
             getFirstObject = (\<lambda>predicate.
               map_option objectRawIdentifier
                 (List.find (\<lambda>statement. predicateRawIdentifier statement = predicate)
                    reportStatements));
             collectObjects = (\<lambda>predicate.
               map objectRawIdentifier
                 (filter (\<lambda>statement. predicateRawIdentifier statement = predicate)
                    reportStatements))
         in (if truthy (getFirstObject SCHEMA_NAME_IRI) then [''schema:name''] else [])
            @ (if truthy (getFirstObject ''https://schema.org/version'')
               then [''schema:version''] else [])
            @ (if truthy (getFirstObject ''https://schema.org/description'')
               then [''schema:description''] else [])
            @ (if collectObjects ''https://schema.org/isBasedOn'' \<noteq> []
               then [''schema:isBasedOn''] else [])))"

text \<open>
  \<^verbatim>\<open>collectTermsForDefinitions\<close>: the terms are added to a set, which keeps the first
  occurrence of each, and the set is sorted with \<^verbatim>\<open>localeCompare\<close>.
\<close>

definition collectTermsForDefinitions ::
  "collation \<Rightarrow> fideIdParser \<Rightarrow> FideIdStatement \<Rightarrow> FideIdStatement option \<Rightarrow> FideIdStatement
     \<Rightarrow> string list \<Rightarrow> exn + string list"
where
  "collectTermsForDefinitions localeCompare parseFideId target anchorValidity evidence reportTerms =
     (case addStatementTerms parseFideId target of
        Inl e \<Rightarrow> Inl e
      | Inr targetTerms \<Rightarrow>
          (case (case anchorValidity of
                   None \<Rightarrow> Inr []
                 | Some statement \<Rightarrow> addStatementTerms parseFideId statement) of
             Inl e \<Rightarrow> Inl e
           | Inr anchorTerms \<Rightarrow>
               (case addStatementTerms parseFideId evidence of
                  Inl e \<Rightarrow> Inl e
                | Inr evidenceTerms \<Rightarrow>
                    Inr (jsSort localeCompare
                           (rev (remdups (rev (targetTerms @ anchorTerms @ evidenceTerms
                                                 @ reportTerms))))))))"

text \<open>
  The table \<^verbatim>\<open>TERM_DEFINITIONS\<close> of the fallback definitions is an object literal, so
  besides its own keys, which are compact terms with a colon, a lookup finds the
  properties that every object of the host inherits. These are their names; what is found
  under them is a function or an object, not a string.
\<close>

definition OBJECT_PROTOTYPE_PROPERTIES :: "string list" where
  "OBJECT_PROTOTYPE_PROPERTIES =
     [''constructor'', ''__defineGetter__'', ''__defineSetter__'', ''hasOwnProperty'',
      ''__lookupGetter__'', ''__lookupSetter__'', ''isPrototypeOf'', ''propertyIsEnumerable'',
      ''toString'', ''valueOf'', ''__proto__'', ''toLocaleString'']"

text \<open>
  \<^verbatim>\<open>buildDefinitionsMarkdown\<close> awaits the vocabulary index, and the rejection of the
  loader is its own. A term that the index has neither under its own name nor under its
  IRI gets the fallback definition, on which \<^verbatim>\<open>replace\<close> is called when it is truthy:
  on an inherited property that call throws. The lines of the definitions are not built.
\<close>

definition fallbackThrows :: "VocabularyIndex \<Rightarrow> string \<Rightarrow> bool" where
  "fallbackThrows index curie =
     (index curie = None
      \<and> (case curieToIri curie of None \<Rightarrow> True | Some iri \<Rightarrow> index iri = None)
      \<and> curie \<in> set OBJECT_PROTOTYPE_PROPERTIES)"

definition buildDefinitionsMarkdown :: "json option list \<Rightarrow> string list \<Rightarrow> exn + unit" where
  "buildDefinitionsMarkdown vocabularyFiles terms =
     (case loadVocabularyIndex vocabularyFiles of
        Inl e \<Rightarrow> Inl e
      | Inr index \<Rightarrow> (if list_ex (fallbackThrows index) terms then Inl TypeError else Inr ()))"

text \<open>
  The body of the loop over the selected evidence: the supporting statements, the terms
  of the definitions, the definitions, the output path and the write of the file, after
  which the unit is recorded.
\<close>

definition generateUnit ::
  "collation \<Rightarrow> dateParser \<Rightarrow> fideIdParser \<Rightarrow> json option list \<Rightarrow> fileWriter
     \<Rightarrow> FideIdStatement \<Rightarrow> FideIdStatement list
     \<Rightarrow> AtomicConsideration \<Rightarrow> FideIdStatement list \<Rightarrow> FideIdStatement
     \<Rightarrow> exn + GeneratedPrompt"
where
  "generateUnit localeCompare dateParse parseFideId vocabularyFiles writeUtf8 target
       contextStatements currentConsideration baseSupportingStatements evidence =
     (let supportingStatements =
            (if currentConsideration = citation_chain then baseSupportingStatements
             else pickAtomicRequiredAnchor localeCompare dateParse currentConsideration target
                    evidence contextStatements)
      in case collectTermsForDefinitions localeCompare parseFideId target
                (case supportingStatements of [] \<Rightarrow> None | anchorValidity # _ \<Rightarrow> Some anchorValidity)
                evidence (reportLineTerms evidence contextStatements) of
           Inl e \<Rightarrow> Inl e
         | Inr definitionTerms \<Rightarrow>
             (case buildDefinitionsMarkdown vocabularyFiles definitionTerms of
                Inl e \<Rightarrow> Inl e
              | Inr definitionsMarkdownLines \<Rightarrow>
                  (let path = defaultEvalPromptAtomicOutPath currentConsideration
                                (statementFideId target) (statementFideId evidence)
                   in if writeUtf8 path
                      then Inr \<lparr>genConsideration = currentConsideration,
                                evidenceStatementFideId = statementFideId evidence,
                                outPath = path,
                                supportingStatementCount = length supportingStatements\<rparr>
                      else Inl WriteFailed)))"

fun generateAll ::
  "(FideIdStatement \<Rightarrow> exn + GeneratedPrompt) \<Rightarrow> FideIdStatement list
     \<Rightarrow> failure + GeneratedPrompt list"
where
  "generateAll gen [] = Inr []"
| "generateAll gen (evidence # rest) =
     (case gen evidence of
        Inl e \<Rightarrow> Inl (Threw e)
      | Inr g \<Rightarrow>
          (case generateAll gen rest of
             Inl f \<Rightarrow> Inl f
           | Inr gs \<Rightarrow> Inr (g # gs)))"

definition considerationStep ::
  "collation \<Rightarrow> dateParser \<Rightarrow> fideIdParser \<Rightarrow> json option list \<Rightarrow> fileWriter
     \<Rightarrow> AtomicConsideration option \<Rightarrow> string option
     \<Rightarrow> FideIdStatement \<Rightarrow> FideIdStatement list \<Rightarrow> AtomicConsideration
     \<Rightarrow> failure + (ConsiderationSummary \<times> GeneratedPrompt list)"
where
  "considerationStep localeCompare dateParse parseFideId vocabularyFiles writeUtf8 consideration
       explicitEvidenceStatementId target contextStatements currentConsideration =
     (case resolveEvidencePool localeCompare consideration target contextStatements
             currentConsideration of
        Fatal f \<Rightarrow> Inl f
      | Skip summary \<Rightarrow> Inr (summary, [])
      | Proceed (evidencePool, baseSupportingStatements) \<Rightarrow>
          (case selectEvidence consideration explicitEvidenceStatementId currentConsideration
                  evidencePool of
             Fatal f \<Rightarrow> Inl f
           | Skip summary \<Rightarrow> Inr (summary, [])
           | Proceed selectedEvidence \<Rightarrow>
               (case generateAll
                       (generateUnit localeCompare dateParse parseFideId vocabularyFiles writeUtf8
                          target contextStatements currentConsideration baseSupportingStatements)
                       selectedEvidence of
                  Inl f \<Rightarrow> Inl f
                | Inr gens \<Rightarrow>
                    Inr (\<lparr>sumConsideration = currentConsideration,
                          evidencePoolCount = length evidencePool,
                          generatedCount = length gens,
                          skippedReason = None\<rparr>, gens))))"

fun runConsiderations ::
  "(AtomicConsideration \<Rightarrow> failure + (ConsiderationSummary \<times> GeneratedPrompt list))
     \<Rightarrow> AtomicConsideration list \<Rightarrow> failure + (ConsiderationSummary list \<times> GeneratedPrompt list)"
where
  "runConsiderations stepOf [] = Inr ([], [])"
| "runConsiderations stepOf (currentConsideration # rest) =
     (case stepOf currentConsideration of
        Inl f \<Rightarrow> Inl f
      | Inr (summary, gens) \<Rightarrow>
          (case runConsiderations stepOf rest of
             Inl f \<Rightarrow> Inl f
           | Inr (summaries, allGens) \<Rightarrow> Inr (summary # summaries, gens @ allGens)))"

definition runPromptAtomic ::
  "collation \<Rightarrow> dateParser \<Rightarrow> fideIdParser \<Rightarrow> json option list \<Rightarrow> fileWriter \<Rightarrow> flags
     \<Rightarrow> FideIdStatement list \<Rightarrow> failure + PromptAtomicSummary"
where
  "runPromptAtomic localeCompare dateParse parseFideId vocabularyFiles writeUtf8 flags statements =
     (let explicitStatementId = getStringFlag flags ''statement'';
          rawConsideration = getStringFlag flags ''consideration'';
          consideration = normalizeAtomicConsideration rawConsideration;
          explicitEvidenceStatementId = getStringFlag flags ''evidence-statement'';
          explicitOutPath = getStringFlag flags ''out''
      in if \<not> truthy explicitStatementId then Inl MissingStatementFlag
         else if truthy rawConsideration \<and> consideration = None then Inl InvalidConsideration
         else if truthy explicitOutPath then Inl OutFlagNotAccepted
         else if truthy explicitEvidenceStatementId \<and> consideration = None
           then Inl EvidenceRequiresConsideration
         else
           (case List.find (\<lambda>st. Some (statementFideId st) = explicitStatementId) statements of
              None \<Rightarrow> Inl (TargetNotFound (the explicitStatementId))
            | Some target \<Rightarrow>
                (if predicateRawIdentifier target \<noteq> OWL_SAME_AS_IRI
                 then Inl (NotSameAsStatement (the explicitStatementId))
                 else
                   (case passesPersonMethodCriteria parseFideId target of
                      Inl e \<Rightarrow> Inl (Threw e)
                    | Inr (Some reason) \<Rightarrow> Inl (MethodCriteriaNotMet reason)
                    | Inr None \<Rightarrow>
                        (let contextStatements =
                               buildPersonPromptContextStatements target statements;
                             considerations =
                               (case consideration of
                                  Some c \<Rightarrow> [c]
                                | None \<Rightarrow> ALL_ATOMIC_CONSIDERATIONS)
                         in case runConsiderations
                                   (considerationStep localeCompare dateParse parseFideId
                                      vocabularyFiles writeUtf8 consideration
                                      explicitEvidenceStatementId target contextStatements)
                                   considerations of
                              Inl f \<Rightarrow> Inl f
                            | Inr (summaries, allGens) \<Rightarrow>
                                (if allGens = [] then Inl NoPromptsGenerated
                                 else Inr \<lparr>targetSameAsStatementFideId = statementFideId target,
                                           selectedConsiderations = considerations,
                                           totalGeneratedCount = length allGens,
                                           considerationSummaries = summaries,
                                           generated = allGens\<rparr>))))))"

text \<open>The exit code of the command: 1 after a message, 0 after success, none after an exception.\<close>

definition exitCode :: "failure + PromptAtomicSummary \<Rightarrow> nat option" where
  "exitCode r = (case r of Inl (Threw e) \<Rightarrow> None | Inl f \<Rightarrow> Some 1 | Inr s \<Rightarrow> Some 0)"


text \<open>
  A request that passes every check made before the loop over the considerations: the
  flags are accepted, the named statement is found and it meets the method criteria.
\<close>

definition acceptedRequest ::
  "fideIdParser \<Rightarrow> flags \<Rightarrow> FideIdStatement list \<Rightarrow> FideIdStatement \<Rightarrow> bool"
where
  "acceptedRequest parseFideId flags statements target \<longleftrightarrow>
     truthy (getStringFlag flags ''statement'')
     \<and> \<not> (truthy (getStringFlag flags ''consideration'')
            \<and> normalizeAtomicConsideration (getStringFlag flags ''consideration'') = None)
     \<and> \<not> truthy (getStringFlag flags ''out'')
     \<and> \<not> (truthy (getStringFlag flags ''evidence-statement'')
            \<and> normalizeAtomicConsideration (getStringFlag flags ''consideration'') = None)
     \<and> List.find (\<lambda>st. Some (statementFideId st) = getStringFlag flags ''statement'') statements
           = Some target
     \<and> passesPersonMethodCriteria parseFideId target = Inr None"

section \<open>Example data\<close>

text \<open>
  A small cluster on which the theorems are instantiated. The identity functions of the
  examples are tables standing for the content hashes: one same-as claim between two
  identifiers of a person, and two validFrom statements about that claim.
\<close>

definition exConfig :: FixtureConfig where
  "exConfig = \<lparr>slug = ''person'', label = ''Person'', scenarioDir = ''scenarios/person'',
     entityType = ''Person'', selectIdentifierContains = None, selectNameContains = None\<rparr>"

definition exFocal :: string where
  "exFocal = ''https://x.example/alice''"

definition exTripleRaw :: string where
  "exTripleRaw = ''did:fide:0xa1|did:fide:0xp1|did:fide:0xb1''"

definition exStatementIdentity :: statementIdentity where
  "exStatementIdentity s p ob =
     (if s = ''did:fide:0xa1'' \<and> p = ''did:fide:0xp1'' \<and> ob = ''did:fide:0xb1''
      then Some ''did:fide:0xt1''
      else if s = ''did:fide:0xee'' then None
      else Some ''did:fide:0x00'')"

definition exIdentity :: identity where
  "exIdentity entity source raw = Some (''did:fide:0x'' @ entity @ '':'' @ source @ '':'' @ raw)"

definition exSameAs :: ScenarioStatement where
  "exSameAs = \<lparr>statement_fide_id = Some ''did:fide:0xt1'', first_created_at = Some 1600000000000,
     subject_type = ''Person'', subject_raw_identifier = ''https://x.example/alice'',
     predicate_raw_identifier = OWL_SAME_AS_IRI, object_type = ''Person'',
     object_raw_identifier = ''https://y.example/alice''\<rparr>"

definition exValidFromRow :: "string \<Rightarrow> int option \<Rightarrow> string \<Rightarrow> ScenarioStatement" where
  "exValidFromRow sid seen date = \<lparr>statement_fide_id = Some sid, first_created_at = seen,
     subject_type = ''Statement'', subject_raw_identifier = exTripleRaw,
     predicate_raw_identifier = SCHEMA_VALID_FROM_IRI, object_type = ''DateLiteral'',
     object_raw_identifier = date\<rparr>"

text \<open>A validFrom row about the same claim whose own statement identifier is missing.\<close>

definition exAnonymousRow :: "int option \<Rightarrow> string \<Rightarrow> ScenarioStatement" where
  "exAnonymousRow seen date = \<lparr>statement_fide_id = None, first_created_at = seen,
     subject_type = ''Statement'', subject_raw_identifier = exTripleRaw,
     predicate_raw_identifier = SCHEMA_VALID_FROM_IRI, object_type = ''DateLiteral'',
     object_raw_identifier = date\<rparr>"

text \<open>The same-as row of the examples as a statement about an organization.\<close>

definition exOrganizationSameAs :: ScenarioStatement where
  "exOrganizationSameAs = \<lparr>statement_fide_id = Some ''did:fide:0xt1'',
     first_created_at = Some 1600000000000,
     subject_type = ''Organization'', subject_raw_identifier = ''https://x.example/alice'',
     predicate_raw_identifier = OWL_SAME_AS_IRI, object_type = ''Organization'',
     object_raw_identifier = ''https://y.example/alice''\<rparr>"

definition exMalformedRow :: ScenarioStatement where
  "exMalformedRow = \<lparr>statement_fide_id = Some ''did:fide:0xa0'', first_created_at = Some 1,
     subject_type = ''Statement'', subject_raw_identifier = ''did:fide:0xa1|did:fide:0xb1'',
     predicate_raw_identifier = SCHEMA_VALID_FROM_IRI, object_type = ''DateLiteral'',
     object_raw_identifier = ''2000-01-01''\<rparr>"

definition exThrowingRow :: ScenarioStatement where
  "exThrowingRow = \<lparr>statement_fide_id = Some ''did:fide:0xa0'', first_created_at = Some 1,
     subject_type = ''Statement'',
     subject_raw_identifier = ''did:fide:0xee|did:fide:0xp1|did:fide:0xb1'',
     predicate_raw_identifier = SCHEMA_VALID_FROM_IRI, object_type = ''DateLiteral'',
     object_raw_identifier = ''2000-01-01''\<rparr>"

definition exCandidate :: "string option \<Rightarrow> int option \<Rightarrow> ValidFromCandidate" where
  "exCandidate sid seen = \<lparr>candStatementFideId = sid, candFirstSeenAt = seen,
     candSubjectRawIdentifier = exTripleRaw\<rparr>"

text \<open>
  The same cluster as a statement batch: the target claim, its two validFrom statements,
  a report-backed citation of the one dated 2021, a citation of the one dated 2022 that
  is not report-backed, the body of the report with a property node, a name of the
  subject, and a statement that has nothing to do with the claim.
\<close>

definition exStatement ::
  "string \<Rightarrow> string \<Rightarrow> string \<Rightarrow> string \<Rightarrow> string \<Rightarrow> string \<Rightarrow> string \<Rightarrow> FideIdStatement"
where
  "exStatement i s sr p pr ob obr =
     \<lparr>statementFideId = i, subjectFideId = s, subjectRawIdentifier = sr, predicateFideId = p,
      predicateRawIdentifier = pr, objectFideId = ob, objectRawIdentifier = obr\<rparr>"

definition exTarget :: FideIdStatement where
  "exTarget = exStatement ''did:fide:0xt1'' ''did:fide:0xa1'' ''https://x.example/alice''
     ''did:fide:0xp1'' OWL_SAME_AS_IRI ''did:fide:0xb1'' ''https://y.example/alice''"

definition exValidFrom2021 :: FideIdStatement where
  "exValidFrom2021 = exStatement ''did:fide:0xb2'' ''did:fide:0xs0'' exTripleRaw
     ''did:fide:0xp2'' SCHEMA_VALID_FROM_IRI ''did:fide:0xd1'' ''2021-01-01''"

definition exValidFrom2022 :: FideIdStatement where
  "exValidFrom2022 = exStatement ''did:fide:0xa2'' ''did:fide:0xs0'' exTripleRaw
     ''did:fide:0xp2'' SCHEMA_VALID_FROM_IRI ''did:fide:0xd2'' ''2022-06-01''"

definition exCitation2021 :: FideIdStatement where
  "exCitation2021 = exStatement ''did:fide:0xc1'' ''did:fide:0xs1'' ''did:fide:0xb2''
     ''did:fide:0xp3'' PROV_HAD_PRIMARY_SOURCE_IRI ''did:fide:0xr1''
     ''https://reports.example/evidence/reports/r1.json''"

definition exCitationNews :: FideIdStatement where
  "exCitationNews = exStatement ''did:fide:0xc2'' ''did:fide:0xs2'' ''did:fide:0xa2''
     ''did:fide:0xp3'' PROV_HAD_PRIMARY_SOURCE_IRI ''did:fide:0xn1''
     ''https://news.example/story''"

definition exReportName :: FideIdStatement where
  "exReportName = exStatement ''did:fide:0xe1'' ''did:fide:0xr1''
     ''https://reports.example/evidence/reports/r1.json'' ''did:fide:0xp4'' SCHEMA_NAME_IRI
     ''did:fide:0xl1'' ''owl:sameAs validFrom evidence report''"

definition exReportProperty :: FideIdStatement where
  "exReportProperty = exStatement ''did:fide:0xe2'' ''did:fide:0xr1''
     ''https://reports.example/evidence/reports/r1.json'' ''did:fide:0xp5''
     SCHEMA_ADDITIONAL_PROPERTY_IRI ''did:fide:0xq1'' ''_:confidence''"

definition exPropertyValue :: FideIdStatement where
  "exPropertyValue = exStatement ''did:fide:0xe3'' ''did:fide:0xq1'' ''_:confidence''
     ''did:fide:0xp6'' ''https://schema.org/value'' ''did:fide:0xl2'' ''0.9''"

definition exName :: FideIdStatement where
  "exName = exStatement ''did:fide:0xf1'' ''did:fide:0xa1'' ''https://x.example/alice''
     ''did:fide:0xp4'' SCHEMA_NAME_IRI ''did:fide:0xl3'' ''Alice''"

definition exUnrelated :: FideIdStatement where
  "exUnrelated = exStatement ''did:fide:0xz1'' ''did:fide:0xzz'' ''https://z.example/zed''
     ''did:fide:0xp4'' SCHEMA_NAME_IRI ''did:fide:0xl4'' ''Zed''"

definition exStatements :: "FideIdStatement list" where
  "exStatements =
     [exTarget, exValidFrom2021, exValidFrom2022, exCitation2021, exCitationNews,
      exReportName, exReportProperty, exPropertyValue, exName, exUnrelated]"

text \<open>
  Stand-ins for the host functions: every identifier with the prefix parses as a person
  from a network resource, and the two dates parse to their epoch milliseconds.
\<close>

definition exParse :: fideIdParser where
  "exParse i = (if startsWith i ''did:fide:0x'' then Some (''Person'', ''NetworkResource'') else None)"

definition exDateParse :: dateParser where
  "exDateParse s =
     (if s = ''2021-01-01'' then Some 1609459200000
      else if s = ''2022-06-01'' then Some 1654041600000
      else None)"

definition exFlags :: "(string \<times> string) list \<Rightarrow> flags" where
  "exFlags given = map_of (map (\<lambda>(k, v). (k, FlagString v)) given)"

text \<open>Two snapshots that both describe the term \<^verbatim>\<open>https://schema.org/name\<close>.\<close>

definition exSnapshot :: "string \<Rightarrow> json" where
  "exSnapshot l =
     JObject [(''@graph'',
       JArray [JObject [(''@id'', JString ''https://schema.org/name''),
                        (''rdfs:label'', JString l)]])]"

text \<open>
  The vocabulary files of the examples, the second of which cannot be read, and a file
  system that accepts every write below the scratch directory.
\<close>

definition exVocabulary :: "json option list" where
  "exVocabulary = [Some (exSnapshot ''name''), None]"

definition exWrites :: fileWriter where
  "exWrites path = startsWith path ''_scratch/''"

section \<open>Properties of the reference matcher\<close>

text \<open>
  C3. Reference-matching equivalence: a candidate whose subject raw value is the
  target's own statement identifier and a candidate whose subject raw value is the
  pipe-joined triple of the target's subject, predicate and object identifiers are
  treated alike by the matcher, which answers true for both.
\<close>

theorem reference_matching_equivalence:
  assumes "subjectRawIdentifier byId = statementFideId target"
      and "subjectRawIdentifier byTriple =
             subjectFideId target @ ''|'' @ predicateFideId target @ ''|'' @ objectFideId target"
  shows "matchesStatementReference byId target
         \<and> matchesStatementReference byTriple target
         \<and> matchesStatementReference byId target = matchesStatementReference byTriple target"
  using assms by (simp add: matchesStatementReference_def buildStatementRawIdentifier_def)

theorem reference_matching_equivalence_witness:
  "matchesStatementReference
     \<lparr>statementFideId = ''did:fide:0xv1'', subjectFideId = ''did:fide:0xs9'',
      subjectRawIdentifier = ''did:fide:0xt1'', predicateFideId = ''did:fide:0xp2'',
      predicateRawIdentifier = SCHEMA_VALID_FROM_IRI, objectFideId = ''did:fide:0xd1'',
      objectRawIdentifier = ''2021-01-01''\<rparr>
     \<lparr>statementFideId = ''did:fide:0xt1'', subjectFideId = ''did:fide:0xa1'',
      subjectRawIdentifier = ''alice'', predicateFideId = ''did:fide:0xp1'',
      predicateRawIdentifier = OWL_SAME_AS_IRI, objectFideId = ''did:fide:0xb1'',
      objectRawIdentifier = ''bob''\<rparr>
   \<and> matchesStatementReference
     \<lparr>statementFideId = ''did:fide:0xv2'', subjectFideId = ''did:fide:0xs9'',
      subjectRawIdentifier = ''did:fide:0xa1|did:fide:0xp1|did:fide:0xb1'',
      predicateFideId = ''did:fide:0xp2'',
      predicateRawIdentifier = SCHEMA_VALID_FROM_IRI, objectFideId = ''did:fide:0xd1'',
      objectRawIdentifier = ''2021-01-01''\<rparr>
     \<lparr>statementFideId = ''did:fide:0xt1'', subjectFideId = ''did:fide:0xa1'',
      subjectRawIdentifier = ''alice'', predicateFideId = ''did:fide:0xp1'',
      predicateRawIdentifier = OWL_SAME_AS_IRI, objectFideId = ''did:fide:0xb1'',
      objectRawIdentifier = ''bob''\<rparr>"
  using reference_matching_equivalence
    [of "\<lparr>statementFideId = ''did:fide:0xv1'', subjectFideId = ''did:fide:0xs9'',
      subjectRawIdentifier = ''did:fide:0xt1'', predicateFideId = ''did:fide:0xp2'',
      predicateRawIdentifier = SCHEMA_VALID_FROM_IRI, objectFideId = ''did:fide:0xd1'',
      objectRawIdentifier = ''2021-01-01''\<rparr>"
     "\<lparr>statementFideId = ''did:fide:0xt1'', subjectFideId = ''did:fide:0xa1'',
      subjectRawIdentifier = ''alice'', predicateFideId = ''did:fide:0xp1'',
      predicateRawIdentifier = OWL_SAME_AS_IRI, objectFideId = ''did:fide:0xb1'',
      objectRawIdentifier = ''bob''\<rparr>"
     "\<lparr>statementFideId = ''did:fide:0xv2'', subjectFideId = ''did:fide:0xs9'',
      subjectRawIdentifier = ''did:fide:0xa1|did:fide:0xp1|did:fide:0xb1'',
      predicateFideId = ''did:fide:0xp2'',
      predicateRawIdentifier = SCHEMA_VALID_FROM_IRI, objectFideId = ''did:fide:0xd1'',
      objectRawIdentifier = ''2021-01-01''\<rparr>"]
  by simp

section \<open>Properties of the evidence closure\<close>

lemmas iri_defs =
  OWL_SAME_AS_IRI_def SCHEMA_VALID_FROM_IRI_def SCHEMA_VALID_THROUGH_IRI_def
  PROV_HAD_PRIMARY_SOURCE_IRI_def SCHEMA_ADDITIONAL_PROPERTY_IRI_def
  OWL_DIFFERENT_FROM_IRI_def SCHEMA_NAME_IRI_def PERSON_AFFILIATION_PREDICATES_def

lemmas closure_defs =
  buildPersonPromptContextStatements_def selectAll_def mapValues_def validTemporalOf_def
  citationsOf_def namesOf_def affiliationsOf_def contradictionsOf_def reportStatementsOf_def
  propertyNodeStatementsOf_def subjectIsObjectOf_def matchesStatementReference_def
  statementRawOf_def buildStatementRawIdentifier_def

lemmas ex_statement_defs =
  exStatement_def exTarget_def exValidFrom2021_def exValidFrom2022_def exCitation2021_def
  exCitationNews_def exReportName_def exReportProperty_def exPropertyValue_def exName_def
  exUnrelated_def exStatements_def exTripleRaw_def

lemma mapSet_keys: "fst ` set (mapSet m k v) = insert k (fst ` set m)"
  by (induction m k v rule: mapSet.induct) auto

lemma mapSet_distinct: "distinct (map fst m) \<Longrightarrow> distinct (map fst (mapSet m k v))"
proof (induction m k v rule: mapSet.induct)
  case (1 k v)
  then show ?case by simp
next
  case (2 k' v' m k v)
  have "fst ` set (mapSet m k v) = insert k (fst ` set m)" by (rule mapSet_keys)
  with 2 show ?case by auto
qed

lemma mapSet_values: "snd ` set (mapSet m k v) \<subseteq> insert v (snd ` set m)"
  by (induction m k v rule: mapSet.induct) auto

lemma mapSet_keyed: "keyed m \<Longrightarrow> keyed (mapSet m (statementFideId st) st)"
  unfolding keyed_def
  by (induction m "statementFideId st" st rule: mapSet.induct) auto

lemma selectAll_keys:
  "fst ` set (selectAll xs m) = fst ` set m \<union> statementFideId ` set xs"
  unfolding selectAll_def
  by (induction xs arbitrary: m) (auto simp: mapSet_keys)

lemma selectAll_distinct:
  "distinct (map fst m) \<Longrightarrow> distinct (map fst (selectAll xs m))"
  unfolding selectAll_def
  by (induction xs arbitrary: m) (auto simp: mapSet_distinct)

lemma selectAll_values:
  "snd ` set (selectAll xs m) \<subseteq> snd ` set m \<union> set xs"
  unfolding selectAll_def
proof (induction xs arbitrary: m)
  case Nil
  then show ?case by simp
next
  case (Cons x xs)
  have "snd ` set (fold (\<lambda>st m. mapSet m (statementFideId st) st) xs (mapSet m (statementFideId x) x))
        \<subseteq> snd ` set (mapSet m (statementFideId x) x) \<union> set xs"
    by (rule Cons.IH)
  also have "\<dots> \<subseteq> insert x (snd ` set m) \<union> set xs"
    using mapSet_values [of m "statementFideId x" x] by blast
  finally show ?case by auto
qed

lemma selectAll_keyed: "keyed m \<Longrightarrow> keyed (selectAll xs m)"
  unfolding selectAll_def
  by (induction xs arbitrary: m) (auto simp: mapSet_keyed)

lemma selectAll_append: "selectAll ys (selectAll xs m) = selectAll (xs @ ys) m"
  by (simp add: selectAll_def)

lemma keyed_ids: "keyed m \<Longrightarrow> map statementFideId (mapValues m) = map fst m"
  unfolding keyed_def mapValues_def by (induction m) auto

lemma set_validTemporalOf: "set (validTemporalOf t xs) = validityHop t xs"
  by (auto simp: validTemporalOf_def validityHop_def)

lemma set_citationsOf: "set (citationsOf t xs) = citationHop t xs"
  unfolding citationsOf_def citationHop_def Let_def set_validTemporalOf [symmetric]
  by (auto simp: matchesStatementReference_def statementRawOf_def)

lemma set_namesOf: "set (namesOf t xs) = nameHop t xs"
  by (auto simp: namesOf_def nameHop_def onEndpoint_def)

lemma set_affiliationsOf: "set (affiliationsOf t xs) = affiliationHop t xs"
  by (auto simp: affiliationsOf_def affiliationHop_def onEndpoint_def)

lemma set_contradictionsOf: "set (contradictionsOf t xs) = contradictionHop t xs"
  by (auto simp: contradictionsOf_def contradictionHop_def)

lemma subjectIsObjectOf_iff:
  "subjectIsObjectOf srcs st \<longleftrightarrow> (\<exists>c \<in> set srcs. subjectEqualsObjectOf st c)"
  by (simp add: subjectIsObjectOf_def subjectEqualsObjectOf_def list_ex_iff)

lemma set_reportStatementsOf: "set (reportStatementsOf t xs) = reportBodyHop t xs"
  by (auto simp: reportStatementsOf_def reportBodyHop_def subjectIsObjectOf_iff set_citationsOf)

lemma set_propertyNodeStatementsOf: "set (propertyNodeStatementsOf t xs) = reportPropertyHop t xs"
  unfolding propertyNodeStatementsOf_def reportPropertyHop_def Let_def
  by (auto simp: subjectIsObjectOf_iff set_reportStatementsOf [symmetric])

lemma build_as_selectAll:
  "buildPersonPromptContextStatements t xs = mapValues (selectAll (closureInsertions t xs) [])"
  by (simp add: buildPersonPromptContextStatements_def Let_def selectAll_append
      closureInsertions_def)

lemma set_closureInsertions: "set (closureInsertions t xs) = closureSpec t xs"
  by (simp add: closureInsertions_def closureSpec_def set_validTemporalOf set_citationsOf
      set_namesOf set_affiliationsOf set_contradictionsOf set_reportStatementsOf
      set_propertyNodeStatementsOf Un_assoc)

lemma closure_distinct_ids:
  "distinct (map statementFideId (buildPersonPromptContextStatements t xs))"
proof -
  have k: "keyed (selectAll (closureInsertions t xs) [])"
    by (rule selectAll_keyed) (simp add: keyed_def)
  have "distinct (map fst (selectAll (closureInsertions t xs) []))"
    by (rule selectAll_distinct) simp
  with keyed_ids [OF k] show ?thesis by (simp add: build_as_selectAll)
qed

lemma closure_subset: "set (buildPersonPromptContextStatements t xs) \<subseteq> closureSpec t xs"
  using selectAll_values [of "closureInsertions t xs" "[]"]
  by (simp add: build_as_selectAll mapValues_def set_closureInsertions)

lemma closure_ids:
  "statementFideId ` set (buildPersonPromptContextStatements t xs)
     = statementFideId ` closureSpec t xs"
proof -
  have k: "keyed (selectAll (closureInsertions t xs) [])"
    by (rule selectAll_keyed) (simp add: keyed_def)
  have "set (map statementFideId (mapValues (selectAll (closureInsertions t xs) [])))
          = set (map fst (selectAll (closureInsertions t xs) []))"
    by (simp only: keyed_ids [OF k])
  then show ?thesis
    by (simp add: build_as_selectAll selectAll_keys set_closureInsertions)
qed

lemma closure_exact:
  assumes "inj_on statementFideId (closureSpec t xs)"
  shows "set (buildPersonPromptContextStatements t xs) = closureSpec t xs"
proof
  show "set (buildPersonPromptContextStatements t xs) \<subseteq> closureSpec t xs"
    by (rule closure_subset)
next
  show "closureSpec t xs \<subseteq> set (buildPersonPromptContextStatements t xs)"
  proof
    fix st assume st: "st \<in> closureSpec t xs"
    then have "statementFideId st \<in> statementFideId ` set (buildPersonPromptContextStatements t xs)"
      by (simp add: closure_ids)
    then obtain st' where st': "st' \<in> set (buildPersonPromptContextStatements t xs)"
      and eq: "statementFideId st = statementFideId st'" by auto
    from st' closure_subset have "st' \<in> closureSpec t xs" by blast
    with assms st eq have "st = st'" by (auto dest: inj_onD)
    with st' show "st \<in> set (buildPersonPromptContextStatements t xs)" by simp
  qed
qed

lemma closure_example:
  "buildPersonPromptContextStatements exTarget exStatements =
     [exTarget, exValidFrom2021, exValidFrom2022, exCitation2021, exCitationNews,
      exName, exReportName, exReportProperty, exPropertyValue]"
  by (simp add: closure_defs ex_statement_defs iri_defs)

lemma closureSpec_subset: "closureSpec t xs \<subseteq> insert t (set xs)"
  by (auto simp: closureSpec_def validityHop_def citationHop_def nameHop_def affiliationHop_def
      contradictionHop_def reportBodyHop_def reportPropertyHop_def)

text \<open>
  C1. Closure boundedness. Statement identifiers are derived from the triple, so in a
  batch the statements that share an identifier are the same statement. For every
  target and every statement list of which that holds, the closure equals exactly the
  union of the target and the named hops (validity, citations, names, affiliations,
  contradictions, report bodies, report properties), no two of its statements share a
  statement identifier, and the target is in it; it suffices that the statements of the
  union are told apart by their identifiers. For any target and list at all, the closure
  has no two statements with one identifier, lies within the union and has exactly the
  statement identifiers of the union.
\<close>

theorem closure_boundedness:
  "distinct (map statementFideId (buildPersonPromptContextStatements target allStatements))
   \<and> set (buildPersonPromptContextStatements target allStatements)
        \<subseteq> closureSpec target allStatements
   \<and> statementFideId ` set (buildPersonPromptContextStatements target allStatements)
        = statementFideId ` closureSpec target allStatements
   \<and> (inj_on statementFideId (closureSpec target allStatements) \<longrightarrow>
        set (buildPersonPromptContextStatements target allStatements)
          = closureSpec target allStatements
        \<and> target \<in> set (buildPersonPromptContextStatements target allStatements))
   \<and> (inj_on statementFideId (insert target (set allStatements)) \<longrightarrow>
        set (buildPersonPromptContextStatements target allStatements)
          = closureSpec target allStatements
        \<and> target \<in> set (buildPersonPromptContextStatements target allStatements))"
proof -
  have t: "target \<in> closureSpec target allStatements"
    by (simp add: closureSpec_def)
  have e: "set (buildPersonPromptContextStatements target allStatements)
          = closureSpec target allStatements"
    if "inj_on statementFideId (closureSpec target allStatements)"
    using that by (rule closure_exact)
  have i: "inj_on statementFideId (closureSpec target allStatements)"
    if "inj_on statementFideId (insert target (set allStatements))"
    using that closureSpec_subset [of target allStatements] by (rule inj_on_subset)
  show ?thesis
    using closure_distinct_ids [of target allStatements] closure_subset [of target allStatements]
      closure_ids [of target allStatements] t e i
    by auto
qed

theorem closure_boundedness_witness:
  "inj_on statementFideId (insert exTarget (set exStatements))
   \<and> set (buildPersonPromptContextStatements exTarget exStatements)
        = closureSpec exTarget exStatements
   \<and> exTarget \<in> set (buildPersonPromptContextStatements exTarget exStatements)
   \<and> exUnrelated \<notin> closureSpec exTarget exStatements"
proof -
  have "distinct (map statementFideId exStatements)"
    by (simp add: ex_statement_defs)
  then have "inj_on statementFideId (set exStatements)"
    by (simp add: distinct_map)
  moreover have "insert exTarget (set exStatements) = set exStatements"
    by (auto simp: exStatements_def)
  ultimately have inj: "inj_on statementFideId (insert exTarget (set exStatements))"
    by simp
  have "exUnrelated \<notin> set (buildPersonPromptContextStatements exTarget exStatements)"
    by (simp add: closure_example) (simp add: ex_statement_defs)
  with inj closure_boundedness [of exTarget exStatements] show ?thesis by blast
qed

section \<open>Properties of the primary identity resolver\<close>

lemmas ex_resolver_defs =
  exConfig_def exFocal_def exTripleRaw_def exStatementIdentity_def exIdentity_def
  exSameAs_def exValidFromRow_def exMalformedRow_def exCandidate_def exAnonymousRow_def
  exOrganizationSameAs_def

lemmas resolver_defs =
  findPrimaryFideId_def validFromCandidatesOf_def validFromCandidate_def
  sameAsStatementIdSet_def owlSameAsStatements_def rankCandidates_def jsSort_def
  compareCandidates_def List.map_filter_def startsWith_def codeUnitCompare_def
  MAX_SAFE_INTEGER_def SCHEMA_VALID_FROM_IRI_def OWL_SAME_AS_IRI_def

lemma splitOn_not_Nil: "splitOn sep s \<noteq> []"
  by (induction s) (auto split: list.splits)

lemma splitOn_no_sep: "sep \<notin> set s \<Longrightarrow> splitOn sep s = [s]"
  by (induction s) auto

lemma splitOn_append: "sep \<notin> set a \<Longrightarrow> splitOn sep (a @ sep # rest) = a # splitOn sep rest"
  by (induction a) auto

lemma splitOn_Cons_cases:
  "splitOn sep s = a # rest \<Longrightarrow>
     sep \<notin> set a \<and> (if rest = [] then s = a else (\<exists>s'. s = a @ sep # s' \<and> splitOn sep s' = rest))"
proof (induction s arbitrary: a rest)
  case Nil
  then show ?case by auto
next
  case (Cons c cs)
  show ?case
  proof (cases "c = sep")
    case True
    with Cons.prems show ?thesis using splitOn_not_Nil [of sep cs] by auto
  next
    case False
    obtain p ps where sp: "splitOn sep cs = p # ps"
      using splitOn_not_Nil [of sep cs] by (cases "splitOn sep cs") auto
    from Cons.IH [OF sp] have ih: "sep \<notin> set p"
      "if ps = [] then cs = p else (\<exists>s'. cs = p @ sep # s' \<and> splitOn sep s' = ps)" by auto
    from Cons.prems False sp have a: "a = c # p" and r: "rest = ps" by auto
    show ?thesis using ih False a r by (auto split: if_splits)
  qed
qed

lemma splitOn_three:
  "splitOn sep s = [a, b, c] \<longleftrightarrow>
     s = a @ [sep] @ b @ [sep] @ c \<and> sep \<notin> set a \<union> set b \<union> set c"
proof
  assume h: "splitOn sep s = [a, b, c]"
  from splitOn_Cons_cases [OF h] obtain s1 where a: "sep \<notin> set a" and s: "s = a @ sep # s1"
    and s1: "splitOn sep s1 = [b, c]" by auto
  from splitOn_Cons_cases [OF s1] obtain s2 where b: "sep \<notin> set b" and s1': "s1 = b @ sep # s2"
    and s2: "splitOn sep s2 = [c]" by auto
  from splitOn_Cons_cases [OF s2] have c: "sep \<notin> set c" and s2': "s2 = c" by auto
  show "s = a @ [sep] @ b @ [sep] @ c \<and> sep \<notin> set a \<union> set b \<union> set c"
    using a b c s s1' s2' by simp
next
  assume "s = a @ [sep] @ b @ [sep] @ c \<and> sep \<notin> set a \<union> set b \<union> set c"
  then show "splitOn sep s = [a, b, c]"
    by (simp add: splitOn_append splitOn_no_sep)
qed

lemma set_insertBy: "set (insertBy cmp x ys) = insert x (set ys)"
  by (induction ys) auto

lemma mset_insertBy: "mset (insertBy cmp x ys) = add_mset x (mset ys)"
  by (induction ys) auto

lemma mset_jsSort: "mset (jsSort cmp xs) = mset xs"
  unfolding jsSort_def by (induction xs) (auto simp: mset_insertBy)


lemma jsSort_Nil_iff: "jsSort cmp xs = [] \<longleftrightarrow> xs = []"
  using mset_jsSort [of cmp xs] by (metis mset_zero_iff)

lemma length_three: "length xs = 3 \<Longrightarrow> \<exists>a b c. xs = [a, b, c]"
  by (auto simp: numeral_3_eq_3 length_Suc_conv)

lemma idSet_is_focalClaimIds:
  "sameAsStatementIdSet config statements focal = focalClaimIds config statements focal"
  unfolding sameAsStatementIdSet_def owlSameAsStatements_def focalClaimIds_def
  by (auto split: option.splits if_splits)

lemma candidate_iff_rederives:
  "validFromCandidate sid K row \<noteq> None \<longleftrightarrow> rederivesToClaim sid K row"
proof
  assume h: "validFromCandidate sid K row \<noteq> None"
  let ?parts = "splitOn (CHR ''|'') (subject_raw_identifier row)"
  from h have p: "predicate_raw_identifier row = SCHEMA_VALID_FROM_IRI"
    and t: "subject_type row = ''Statement''"
    and l: "length ?parts = 3"
    and pre: "list_all (\<lambda>part. startsWith part ''did:fide:0x'') ?parts"
    by (auto simp: validFromCandidate_def Let_def split: if_splits)
  from l obtain a b c where abc: "?parts = [a, b, c]"
    using length_three by blast
  from h p t l pre abc obtain i where i: "sid a b c = Some i" "i \<in> K"
    by (auto simp: validFromCandidate_def Let_def split: if_splits option.splits)
  from abc splitOn_three [of "CHR ''|''" "subject_raw_identifier row" a b c]
  have "subject_raw_identifier row = a @ ''|'' @ b @ ''|'' @ c"
    "CHR ''|'' \<notin> set a \<union> set b \<union> set c" by auto
  with p t pre abc i show "rederivesToClaim sid K row"
    unfolding rederivesToClaim_def isFideId_def by auto
next
  assume "rederivesToClaim sid K row"
  then obtain a b c i where p: "predicate_raw_identifier row = SCHEMA_VALID_FROM_IRI"
    and t: "subject_type row = ''Statement''"
    and s: "subject_raw_identifier row = a @ ''|'' @ b @ ''|'' @ c"
    and n: "CHR ''|'' \<notin> set a \<union> set b \<union> set c"
    and f: "isFideId a" "isFideId b" "isFideId c"
    and i: "sid a b c = Some i" "i \<in> K"
    unfolding rederivesToClaim_def by blast
  from s n have "splitOn (CHR ''|'') (subject_raw_identifier row) = [a, b, c]"
    using splitOn_three [of "CHR ''|''" "subject_raw_identifier row" a b c] by simp
  with p t f i show "validFromCandidate sid K row \<noteq> None"
    by (simp add: validFromCandidate_def Let_def isFideId_def)
qed

lemma map_filter_Nil_iff: "List.map_filter f xs = [] \<longleftrightarrow> (\<forall>x \<in> set xs. f x = None)"
  by (induction xs) (auto simp: List.map_filter_simps split: option.splits)

lemma unresolved_iff_no_candidate:
  "findPrimaryFideId lc sid fid config statements focal = Inr None
     \<longleftrightarrow> validFromCandidatesOf sid (sameAsStatementIdSet config statements focal) statements = []"
  by (auto simp: findPrimaryFideId_def Let_def split: list.splits option.splits)

lemma malformed_no_candidate:
  assumes "malformedSubject row \<or> rederivationThrows sid row"
  shows "validFromCandidate sid K row = None"
proof -
  let ?parts = "splitOn (CHR ''|'') (subject_raw_identifier row)"
  from assms show ?thesis
  proof
    assume m: "malformedSubject row"
    show ?thesis
    proof (cases "length ?parts = 3 \<and> list_all (\<lambda>part. startsWith part ''did:fide:0x'') ?parts")
      case True
      then obtain a b c where abc: "?parts = [a, b, c]"
        using length_three by blast
      with True m show ?thesis by (auto simp: malformedSubject_def isFideId_def)
    next
      case False
      then show ?thesis by (auto simp: validFromCandidate_def Let_def)
    qed
  next
    assume "rederivationThrows sid row"
    then show ?thesis
      by (auto simp: rederivationThrows_def validFromCandidate_def Let_def)
  qed
qed

lemma validFrom_not_sameAs: "SCHEMA_VALID_FROM_IRI \<noteq> OWL_SAME_AS_IRI"
  by (simp add: SCHEMA_VALID_FROM_IRI_def OWL_SAME_AS_IRI_def)

lemma idSet_without_validFrom_row:
  assumes "predicate_raw_identifier r = SCHEMA_VALID_FROM_IRI"
  shows "sameAsStatementIdSet config (xs @ r # ys) focal = sameAsStatementIdSet config (xs @ ys) focal"
  using assms validFrom_not_sameAs
  by (simp add: sameAsStatementIdSet_def owlSameAsStatements_def)

lemma candidates_without_row:
  assumes "validFromCandidate sid K r = None"
  shows "validFromCandidatesOf sid K (xs @ r # ys) = validFromCandidatesOf sid K (xs @ ys)"
  using assms by (simp add: validFromCandidatesOf_def List.map_filter_def)

lemma rankCandidates_two:
  assumes "cs = [a, b] \<or> cs = [b, a]"
      and "candFirstSeenAt a = Some t1" and "candFirstSeenAt b = Some t2" and "t1 < t2"
  shows "rankCandidates lc cs = [a, b]"
  using assms by (auto simp: rankCandidates_def jsSort_def compareCandidates_def)

lemma owlSameAs_withValidFromDates:
  "owlSameAsStatements config (withValidFromDates date statements) focal
     = owlSameAsStatements config statements focal"
  unfolding owlSameAsStatements_def withValidFromDates_def
  using validFrom_not_sameAs by (induction statements) auto

lemma candidate_withValidFromDate:
  "validFromCandidate sid K (row\<lparr>object_raw_identifier := d\<rparr>) = validFromCandidate sid K row"
  by (simp add: validFromCandidate_def Let_def split: option.splits)

lemma candidates_withValidFromDates:
  "validFromCandidatesOf sid K (withValidFromDates date statements)
     = validFromCandidatesOf sid K statements"
  unfolding validFromCandidatesOf_def withValidFromDates_def
  by (induction statements)
     (auto simp: List.map_filter_simps candidate_withValidFromDate split: option.splits)

lemma resolver_withValidFromDates:
  "findPrimaryFideId lc sid fid config (withValidFromDates date statements) focal
     = findPrimaryFideId lc sid fid config statements focal"
  by (simp add: findPrimaryFideId_def sameAsStatementIdSet_def owlSameAs_withValidFromDates
      candidates_withValidFromDates)

lemma resolver_returns_winner:
  assumes "rankCandidates lc
             (validFromCandidatesOf sid (sameAsStatementIdSet config statements focal) statements)
           = w # rest"
      and "fid (entityType config) ''Statement'' (candSubjectRawIdentifier w) = Some pid"
  shows "findPrimaryFideId lc sid fid config statements focal
           = Inr (Some \<lparr>primaryFideId = pid,
                        anchorSameAsStatementRawIdentifier = candSubjectRawIdentifier w,
                        anchorValidFromStatementFideId = candStatementFideId w,
                        anchorValidFromFirstSeenAt = candFirstSeenAt w\<rparr>)"
proof -
  let ?cs = "validFromCandidatesOf sid (sameAsStatementIdSet config statements focal) statements"
  from assms(1) have "?cs \<noteq> []"
    using jsSort_Nil_iff [of "compareCandidates lc" ?cs] by (auto simp: rankCandidates_def)
  with assms show ?thesis by (simp add: findPrimaryFideId_def Let_def)
qed

text \<open>
  C2. The ranking of equally old candidates. A candidate without a statement identifier
  is compared as the one-character string of a tilde, which is meant to rank it after
  the candidates that have an identifier. Where it is ranked is the collation's matter:
  of two candidates first seen at the same time, one with an identifier and one without,
  the one without is ranked last when the collation puts the tilde after the identifier,
  and it is ranked first, and is the anchor that the resolver returns, when the collation
  puts the tilde before the identifier, as the collation of the host does with every
  identifier, which begins with a letter.
\<close>

theorem missing_identifier_ranked_by_tilde:
  assumes "candFirstSeenAt a = candFirstSeenAt b"
      and "candStatementFideId a = Some i" and "candStatementFideId b = None"
  shows "(lc ''~'' i < 0 \<and> 0 < lc i ''~''
            \<longrightarrow> rankCandidates lc [a, b] = [b, a] \<and> rankCandidates lc [b, a] = [b, a]
               \<and> ((validFromCandidatesOf sid (sameAsStatementIdSet config statements focal)
                       statements = [a, b]
                     \<or> validFromCandidatesOf sid (sameAsStatementIdSet config statements focal)
                       statements = [b, a])
                    \<and> fid (entityType config) ''Statement'' (candSubjectRawIdentifier b) = Some pid
                  \<longrightarrow> findPrimaryFideId lc sid fid config statements focal
                        = Inr (Some \<lparr>primaryFideId = pid,
                                 anchorSameAsStatementRawIdentifier = candSubjectRawIdentifier b,
                                 anchorValidFromStatementFideId = None,
                                 anchorValidFromFirstSeenAt = candFirstSeenAt b\<rparr>)))
       \<and> (lc i ''~'' < 0 \<and> 0 < lc ''~'' i
            \<longrightarrow> rankCandidates lc [a, b] = [a, b] \<and> rankCandidates lc [b, a] = [a, b])"
proof -
  have ne: "i \<noteq> ''~''" if "lc ''~'' i < 0" "0 < lc i ''~''"
    using that by auto
  have first: "rankCandidates lc [a, b] = [b, a] \<and> rankCandidates lc [b, a] = [b, a]"
    if "lc ''~'' i < 0" "0 < lc i ''~''"
    using that ne [OF that] assms
    by (simp add: rankCandidates_def jsSort_def compareCandidates_def)
  have anchor: "findPrimaryFideId lc sid fid config statements focal
                  = Inr (Some \<lparr>primaryFideId = pid,
                           anchorSameAsStatementRawIdentifier = candSubjectRawIdentifier b,
                           anchorValidFromStatementFideId = None,
                           anchorValidFromFirstSeenAt = candFirstSeenAt b\<rparr>)"
    if t: "lc ''~'' i < 0" "0 < lc i ''~''"
      and cs: "validFromCandidatesOf sid (sameAsStatementIdSet config statements focal)
                 statements = [a, b]
               \<or> validFromCandidatesOf sid (sameAsStatementIdSet config statements focal)
                 statements = [b, a]"
      and pid: "fid (entityType config) ''Statement'' (candSubjectRawIdentifier b) = Some pid"
  proof -
    from cs first [OF t]
    have "rankCandidates lc
            (validFromCandidatesOf sid (sameAsStatementIdSet config statements focal) statements)
          = b # [a]"
      by auto
    from resolver_returns_winner
      [of lc sid config statements focal b "[a]" fid pid, OF this pid] assms(3)
    show ?thesis by simp
  qed
  have last: "rankCandidates lc [a, b] = [a, b] \<and> rankCandidates lc [b, a] = [a, b]"
    if "lc i ''~'' < 0" "0 < lc ''~'' i"
  proof -
    from that have "i \<noteq> ''~''" by auto
    with that assms show ?thesis
      by (simp add: rankCandidates_def jsSort_def compareCandidates_def)
  qed
  from first anchor last show ?thesis by blast
qed

theorem missing_identifier_ranked_by_tilde_witness:
  "symbolsFirstCompare ''~'' ''did:fide:0xb2'' = - 1
   \<and> symbolsFirstCompare ''did:fide:0xb2'' ''~'' = 1
   \<and> rankCandidates symbolsFirstCompare
         [exCandidate (Some ''did:fide:0xb2'') (Some 5), exCandidate None (Some 5)]
       = [exCandidate None (Some 5), exCandidate (Some ''did:fide:0xb2'') (Some 5)]
   \<and> findPrimaryFideId symbolsFirstCompare exStatementIdentity exIdentity exConfig
         [exSameAs, exValidFromRow ''did:fide:0xb2'' (Some 5) ''2021-01-01'',
          exAnonymousRow (Some 5) ''2022-06-01''] exFocal
       = Inr (Some \<lparr>primaryFideId =
                  ''did:fide:0xPerson:Statement:did:fide:0xa1|did:fide:0xp1|did:fide:0xb1'',
            anchorSameAsStatementRawIdentifier = ''did:fide:0xa1|did:fide:0xp1|did:fide:0xb1'',
            anchorValidFromStatementFideId = None,
            anchorValidFromFirstSeenAt = Some 5\<rparr>)
   \<and> codeUnitCompare ''did:fide:0xb2'' ''~'' = - 1
   \<and> codeUnitCompare ''~'' ''did:fide:0xb2'' = 1
   \<and> rankCandidates codeUnitCompare
         [exCandidate None (Some 5), exCandidate (Some ''did:fide:0xb2'') (Some 5)]
       = [exCandidate (Some ''did:fide:0xb2'') (Some 5), exCandidate None (Some 5)]"
proof -
  let ?a = "exCandidate (Some ''did:fide:0xb2'') (Some 5)"
  let ?b = "exCandidate None (Some 5)"
  let ?sts = "[exSameAs, exValidFromRow ''did:fide:0xb2'' (Some 5) ''2021-01-01'',
          exAnonymousRow (Some 5) ''2022-06-01'']"
  have h1: "symbolsFirstCompare ''~'' ''did:fide:0xb2'' = - 1"
    by (simp add: symbolsFirstCompare_def collationWeight_def)
  have h2: "symbolsFirstCompare ''did:fide:0xb2'' ''~'' = 1"
    by (simp add: symbolsFirstCompare_def collationWeight_def)
  have c1: "codeUnitCompare ''did:fide:0xb2'' ''~'' = - 1"
    by (simp add: codeUnitCompare_def)
  have c2: "codeUnitCompare ''~'' ''did:fide:0xb2'' = 1"
    by (simp add: codeUnitCompare_def)
  have cs: "validFromCandidatesOf exStatementIdentity
              (sameAsStatementIdSet exConfig ?sts exFocal) ?sts = [?a, ?b]"
    by (simp add: resolver_defs ex_resolver_defs)
  have pid: "exIdentity (entityType exConfig) ''Statement'' (candSubjectRawIdentifier ?b)
               = Some ''did:fide:0xPerson:Statement:did:fide:0xa1|did:fide:0xp1|did:fide:0xb1''"
    by (simp add: ex_resolver_defs)
  have e: "candFirstSeenAt ?a = candFirstSeenAt ?b"
    "candStatementFideId ?a = Some ''did:fide:0xb2''" "candStatementFideId ?b = None"
    by (simp_all add: exCandidate_def)
  note host = missing_identifier_ranked_by_tilde
      [OF e, of symbolsFirstCompare exStatementIdentity exConfig ?sts exFocal exIdentity
          "''did:fide:0xPerson:Statement:did:fide:0xa1|did:fide:0xp1|did:fide:0xb1''"]
  note aim = missing_identifier_ranked_by_tilde
      [OF e, of codeUnitCompare exStatementIdentity exConfig ?sts exFocal exIdentity
          "''did:fide:0xPerson:Statement:did:fide:0xa1|did:fide:0xp1|did:fide:0xb1''"]
  have r1: "rankCandidates symbolsFirstCompare [?a, ?b] = [?b, ?a]"
    using host h1 h2 by simp
  have r2: "findPrimaryFideId symbolsFirstCompare exStatementIdentity exIdentity exConfig ?sts
              exFocal
       = Inr (Some \<lparr>primaryFideId =
                  ''did:fide:0xPerson:Statement:did:fide:0xa1|did:fide:0xp1|did:fide:0xb1'',
            anchorSameAsStatementRawIdentifier = ''did:fide:0xa1|did:fide:0xp1|did:fide:0xb1'',
            anchorValidFromStatementFideId = None,
            anchorValidFromFirstSeenAt = Some 5\<rparr>)"
    using host h1 h2 cs pid by (simp add: exCandidate_def exTripleRaw_def)
  have r3: "rankCandidates codeUnitCompare [?b, ?a] = [?a, ?b]"
    using aim c1 c2 by simp
  from h1 h2 r1 r2 c1 c2 r3 show ?thesis by simp
qed

text \<open>
  C7. Resolver totality. The claim identifiers of the focal value are the statement
  identifiers of the same-as statements of the entity type that have the focal value as
  subject or as object. The resolver returns unresolved exactly when no row is a
  validFrom statement about a statement whose subject raw value consists of three
  pipe-separated identifiers that re-derive, by the statement identity, to one of those
  claim identifiers; the only failure is the derivation of the identity of the result,
  and on input for which that identity is defined the resolver never fails, it returns a
  result or unresolved.
\<close>

theorem resolver_totality:
  "(findPrimaryFideId lc sid fid config statements focal = Inr None
      \<longleftrightarrow> \<not> (\<exists>row \<in> set statements.
                rederivesToClaim sid (focalClaimIds config statements focal) row))
   \<and> (\<forall>e. findPrimaryFideId lc sid fid config statements focal = Inl e
          \<longrightarrow> e = IdentityDerivationFailed
              \<and> (\<exists>raw. fid (entityType config) ''Statement'' raw = None))
   \<and> ((\<forall>raw. fid (entityType config) ''Statement'' raw \<noteq> None)
        \<longrightarrow> (\<exists>r. findPrimaryFideId lc sid fid config statements focal = Inr r))"
proof -
  let ?K = "sameAsStatementIdSet config statements focal"
  have K: "?K = focalClaimIds config statements focal"
    by (rule idSet_is_focalClaimIds)
  have "(\<forall>row \<in> set statements. validFromCandidate sid ?K row = None)
          \<longleftrightarrow> \<not> (\<exists>row \<in> set statements. rederivesToClaim sid ?K row)"
    using candidate_iff_rederives [of sid ?K] by blast
  then have "validFromCandidatesOf sid ?K statements = []
          \<longleftrightarrow> \<not> (\<exists>row \<in> set statements. rederivesToClaim sid ?K row)"
    by (simp only: validFromCandidatesOf_def map_filter_Nil_iff)
  then have "findPrimaryFideId lc sid fid config statements focal = Inr None
      \<longleftrightarrow> \<not> (\<exists>row \<in> set statements. rederivesToClaim sid ?K row)"
    by (simp add: unresolved_iff_no_candidate)
  then have a: "findPrimaryFideId lc sid fid config statements focal = Inr None
      \<longleftrightarrow> \<not> (\<exists>row \<in> set statements.
                rederivesToClaim sid (focalClaimIds config statements focal) row)"
    by (simp only: K)
  have c: "e = IdentityDerivationFailed \<and> (\<exists>raw. fid (entityType config) ''Statement'' raw = None)"
    if "findPrimaryFideId lc sid fid config statements focal = Inl e" for e
  proof (cases "validFromCandidatesOf sid ?K statements = []")
    case True
    with that show ?thesis by (simp add: findPrimaryFideId_def)
  next
    case False
    then obtain w rest where "rankCandidates lc (validFromCandidatesOf sid ?K statements) = w # rest"
      using jsSort_Nil_iff [of "compareCandidates lc" "validFromCandidatesOf sid ?K statements"]
      by (cases "rankCandidates lc (validFromCandidatesOf sid ?K statements)")
         (auto simp: rankCandidates_def)
    with False that show ?thesis
      by (auto simp: findPrimaryFideId_def Let_def split: option.splits)
  qed
  have b: "\<exists>r. findPrimaryFideId lc sid fid config statements focal = Inr r"
    if "\<forall>raw. fid (entityType config) ''Statement'' raw \<noteq> None"
  proof (cases "findPrimaryFideId lc sid fid config statements focal")
    case (Inl e)
    from c [OF this] that show ?thesis by blast
  next
    case (Inr r)
    then show ?thesis by blast
  qed
  from a b c show ?thesis by blast
qed

theorem resolver_totality_witness:
  "exIdentity (entityType exConfig) ''Statement'' exTripleRaw \<noteq> None
   \<and> findPrimaryFideId codeUnitCompare exStatementIdentity exIdentity exConfig
         [exSameAs, exValidFromRow ''did:fide:0xb2'' (Some 7) ''2021-01-01''] exFocal
       = Inr (Some \<lparr>primaryFideId =
                  ''did:fide:0xPerson:Statement:did:fide:0xa1|did:fide:0xp1|did:fide:0xb1'',
            anchorSameAsStatementRawIdentifier = ''did:fide:0xa1|did:fide:0xp1|did:fide:0xb1'',
            anchorValidFromStatementFideId = Some ''did:fide:0xb2'',
            anchorValidFromFirstSeenAt = Some 7\<rparr>)
   \<and> focalClaimIds exConfig
         [exSameAs, exValidFromRow ''did:fide:0xb2'' (Some 7) ''2021-01-01''] exFocal
       = {''did:fide:0xt1''}
   \<and> rederivesToClaim exStatementIdentity
         (focalClaimIds exConfig
            [exSameAs, exValidFromRow ''did:fide:0xb2'' (Some 7) ''2021-01-01''] exFocal)
         (exValidFromRow ''did:fide:0xb2'' (Some 7) ''2021-01-01'')
   \<and> focalClaimIds exConfig
         [exSameAs, exValidFromRow ''did:fide:0xb2'' (Some 7) ''2021-01-01'']
         ''https://y.example/alice''
       = {''did:fide:0xt1''}
   \<and> rederivesToClaim exStatementIdentity
         (focalClaimIds exConfig
            [exSameAs, exValidFromRow ''did:fide:0xb2'' (Some 7) ''2021-01-01'']
            ''https://y.example/alice'')
         (exValidFromRow ''did:fide:0xb2'' (Some 7) ''2021-01-01'')
   \<and> focalClaimIds exConfig
         [exSameAs, exValidFromRow ''did:fide:0xb2'' (Some 7) ''2021-01-01'']
         ''https://z.example/zed''
       = {}
   \<and> findPrimaryFideId codeUnitCompare exStatementIdentity exIdentity exConfig
         [exSameAs, exValidFromRow ''did:fide:0xb2'' (Some 7) ''2021-01-01'']
         ''https://z.example/zed''
       = Inr None
   \<and> findPrimaryFideId codeUnitCompare exStatementIdentity exIdentity exConfig
         [exOrganizationSameAs, exValidFromRow ''did:fide:0xb2'' (Some 7) ''2021-01-01''] exFocal
       = Inr None
   \<and> focalClaimIds exConfig
         [exOrganizationSameAs, exValidFromRow ''did:fide:0xb2'' (Some 7) ''2021-01-01''] exFocal
       = {}
   \<and> \<not> rederivesToClaim exStatementIdentity
         (focalClaimIds exConfig
            [exOrganizationSameAs, exValidFromRow ''did:fide:0xb2'' (Some 7) ''2021-01-01'']
            exFocal)
         (exValidFromRow ''did:fide:0xb2'' (Some 7) ''2021-01-01'')"
proof -
  let ?v = "exValidFromRow ''did:fide:0xb2'' (Some 7) ''2021-01-01''"
  let ?sts = "[exSameAs, ?v]"
  let ?org = "[exOrganizationSameAs, ?v]"
  have i: "exIdentity (entityType exConfig) ''Statement'' exTripleRaw \<noteq> None"
    by (simp add: exIdentity_def)
  have r1: "findPrimaryFideId codeUnitCompare exStatementIdentity exIdentity exConfig ?sts exFocal
       = Inr (Some \<lparr>primaryFideId =
                  ''did:fide:0xPerson:Statement:did:fide:0xa1|did:fide:0xp1|did:fide:0xb1'',
            anchorSameAsStatementRawIdentifier = ''did:fide:0xa1|did:fide:0xp1|did:fide:0xb1'',
            anchorValidFromStatementFideId = Some ''did:fide:0xb2'',
            anchorValidFromFirstSeenAt = Some 7\<rparr>)"
    by (simp add: resolver_defs ex_resolver_defs)
  have r2: "findPrimaryFideId codeUnitCompare exStatementIdentity exIdentity exConfig ?org exFocal
       = Inr None"
    by (simp add: resolver_defs ex_resolver_defs)
  have k1: "focalClaimIds exConfig ?sts exFocal = {''did:fide:0xt1''}"
    by (auto simp: focalClaimIds_def ex_resolver_defs SCHEMA_VALID_FROM_IRI_def
        OWL_SAME_AS_IRI_def)
  have k2: "focalClaimIds exConfig ?org exFocal = {}"
    by (auto simp: focalClaimIds_def ex_resolver_defs SCHEMA_VALID_FROM_IRI_def
        OWL_SAME_AS_IRI_def)
  have n1: "\<not> rederivesToClaim exStatementIdentity K exSameAs" for K
    by (simp add: rederivesToClaim_def exSameAs_def validFrom_not_sameAs [symmetric])
  note t1 = resolver_totality [of codeUnitCompare exStatementIdentity exIdentity exConfig
      ?sts exFocal]
  note t2 = resolver_totality [of codeUnitCompare exStatementIdentity exIdentity exConfig
      ?org exFocal]
  from t1 r1 n1 have d1: "rederivesToClaim exStatementIdentity
      (focalClaimIds exConfig ?sts exFocal) ?v"
    by simp
  have r3: "findPrimaryFideId codeUnitCompare exStatementIdentity exIdentity exConfig ?sts
              ''https://y.example/alice''
       = Inr (Some \<lparr>primaryFideId =
                  ''did:fide:0xPerson:Statement:did:fide:0xa1|did:fide:0xp1|did:fide:0xb1'',
            anchorSameAsStatementRawIdentifier = ''did:fide:0xa1|did:fide:0xp1|did:fide:0xb1'',
            anchorValidFromStatementFideId = Some ''did:fide:0xb2'',
            anchorValidFromFirstSeenAt = Some 7\<rparr>)"
    by (simp add: resolver_defs ex_resolver_defs)
  have r4: "findPrimaryFideId codeUnitCompare exStatementIdentity exIdentity exConfig ?sts
              ''https://z.example/zed'' = Inr None"
    by (simp add: resolver_defs ex_resolver_defs)
  have k3: "focalClaimIds exConfig ?sts ''https://y.example/alice'' = {''did:fide:0xt1''}"
    by (auto simp: focalClaimIds_def ex_resolver_defs SCHEMA_VALID_FROM_IRI_def
        OWL_SAME_AS_IRI_def)
  have k4: "focalClaimIds exConfig ?sts ''https://z.example/zed'' = {}"
    by (auto simp: focalClaimIds_def ex_resolver_defs SCHEMA_VALID_FROM_IRI_def
        OWL_SAME_AS_IRI_def)
  note t3 = resolver_totality [of codeUnitCompare exStatementIdentity exIdentity exConfig
      ?sts "''https://y.example/alice''"]
  from t3 r3 n1 have d3: "rederivesToClaim exStatementIdentity
      (focalClaimIds exConfig ?sts ''https://y.example/alice'') ?v"
    by simp
  from t2 r2 have d2: "\<not> rederivesToClaim exStatementIdentity
      (focalClaimIds exConfig ?org exFocal) ?v"
    by simp
  from i r1 k1 d1 k3 d3 k4 r4 r2 k2 d2 show ?thesis by blast
qed

text \<open>
  C8, as the claim states it, fails: of two validFrom statements about the target claim
  whose objects are the dates 2021-01-01 and 2022-06-01, with no first-seen time on
  either, the resolver selects the one dated 2022-06-01 when that one has the smaller
  statement identifier. The resolver never reads the object of a validFrom statement.
\<close>

theorem later_dated_anchor_counterexample:
  "findPrimaryFideId codeUnitCompare exStatementIdentity exIdentity exConfig
     [exSameAs, exValidFromRow ''did:fide:0xb2'' None ''2021-01-01'',
      exValidFromRow ''did:fide:0xa2'' None ''2022-06-01''] exFocal
   = Inr (Some \<lparr>primaryFideId =
                  ''did:fide:0xPerson:Statement:did:fide:0xa1|did:fide:0xp1|did:fide:0xb1'',
        anchorSameAsStatementRawIdentifier = ''did:fide:0xa1|did:fide:0xp1|did:fide:0xb1'',
        anchorValidFromStatementFideId = Some ''did:fide:0xa2'',
        anchorValidFromFirstSeenAt = None\<rparr>)"
  by (simp add: resolver_defs ex_resolver_defs)

text \<open>
  C8, amended. When exactly two validFrom anchor candidates survive and both have a
  first-seen time, the resolver selects the one that was first seen earlier, for
  instance the one first seen on 2021-01-01 rather than the one first seen on
  2022-06-01; the dates in the objects of the validFrom statements play no part, the
  outcome is the same whatever they are.
\<close>

theorem earliest_first_seen_selected:
  assumes "validFromCandidatesOf sid (sameAsStatementIdSet config statements focal) statements
             = [a, b]
           \<or> validFromCandidatesOf sid (sameAsStatementIdSet config statements focal) statements
             = [b, a]"
      and "candFirstSeenAt a = Some t1" and "candFirstSeenAt b = Some t2" and "t1 < t2"
      and "fid (entityType config) ''Statement'' (candSubjectRawIdentifier a) = Some pid"
  shows "findPrimaryFideId lc sid fid config statements focal
           = Inr (Some \<lparr>primaryFideId = pid,
                        anchorSameAsStatementRawIdentifier = candSubjectRawIdentifier a,
                        anchorValidFromStatementFideId = candStatementFideId a,
                        anchorValidFromFirstSeenAt = Some t1\<rparr>)
       \<and> findPrimaryFideId lc sid fid config (withValidFromDates date statements) focal
           = findPrimaryFideId lc sid fid config statements focal"
proof -
  let ?cs = "validFromCandidatesOf sid (sameAsStatementIdSet config statements focal) statements"
  have r: "rankCandidates lc ?cs = [a, b]"
    using assms(1-4) by (rule rankCandidates_two)
  from assms(1) have "?cs \<noteq> []" by auto
  with r assms(2,5) have "findPrimaryFideId lc sid fid config statements focal
           = Inr (Some \<lparr>primaryFideId = pid,
                        anchorSameAsStatementRawIdentifier = candSubjectRawIdentifier a,
                        anchorValidFromStatementFideId = candStatementFideId a,
                        anchorValidFromFirstSeenAt = Some t1\<rparr>)"
    by (simp add: findPrimaryFideId_def Let_def)
  then show ?thesis
    by (simp only: resolver_withValidFromDates simp_thms)
qed

theorem earliest_first_seen_selected_witness:
  "findPrimaryFideId codeUnitCompare exStatementIdentity exIdentity exConfig
     [exSameAs, exValidFromRow ''did:fide:0xa2'' (Some 1654041600000) ''2021-01-01'',
      exValidFromRow ''did:fide:0xb2'' (Some 1609459200000) ''2022-06-01''] exFocal
   = Inr (Some \<lparr>primaryFideId =
                  ''did:fide:0xPerson:Statement:did:fide:0xa1|did:fide:0xp1|did:fide:0xb1'',
        anchorSameAsStatementRawIdentifier = ''did:fide:0xa1|did:fide:0xp1|did:fide:0xb1'',
        anchorValidFromStatementFideId = Some ''did:fide:0xb2'',
        anchorValidFromFirstSeenAt = Some 1609459200000\<rparr>)"
proof -
  let ?sts = "[exSameAs, exValidFromRow ''did:fide:0xa2'' (Some 1654041600000) ''2021-01-01'',
      exValidFromRow ''did:fide:0xb2'' (Some 1609459200000) ''2022-06-01'']"
  have c: "validFromCandidatesOf exStatementIdentity
             (sameAsStatementIdSet exConfig ?sts exFocal) ?sts
           = [exCandidate (Some ''did:fide:0xa2'') (Some 1654041600000),
              exCandidate (Some ''did:fide:0xb2'') (Some 1609459200000)]"
    by (simp add: resolver_defs ex_resolver_defs)
  have f: "exIdentity (entityType exConfig) ''Statement''
             (candSubjectRawIdentifier (exCandidate (Some ''did:fide:0xb2'') (Some 1609459200000)))
           = Some ''did:fide:0xPerson:Statement:did:fide:0xa1|did:fide:0xp1|did:fide:0xb1''"
    by (simp add: ex_resolver_defs)
  show ?thesis
    using earliest_first_seen_selected
      [of exStatementIdentity exConfig ?sts exFocal
          "exCandidate (Some ''did:fide:0xb2'') (Some 1609459200000)"
          "exCandidate (Some ''did:fide:0xa2'') (Some 1654041600000)"
          1609459200000 1654041600000 exIdentity
          "''did:fide:0xPerson:Statement:did:fide:0xa1|did:fide:0xp1|did:fide:0xb1''"
          codeUnitCompare "\<lambda>row. ''''", OF disjI2 [OF c] _ _ _ f]
    by (simp add: exCandidate_def exTripleRaw_def)
qed

text \<open>
  C10. A validFrom row whose subject raw value does not split at the pipes into exactly
  three components that all begin with the identifier prefix, or on whose components the
  statement identity throws, is passed over: it is never a candidate, and the outcome of
  the resolver is the outcome on the rows without it.
\<close>

theorem malformed_rows_skipped:
  assumes "predicate_raw_identifier r = SCHEMA_VALID_FROM_IRI"
      and "malformedSubject r \<or> rederivationThrows sid r"
  shows "validFromCandidate sid K r = None
       \<and> findPrimaryFideId lc sid fid config (xs @ r # ys) focal
           = findPrimaryFideId lc sid fid config (xs @ ys) focal"
proof -
  have n: "\<And>K. validFromCandidate sid K r = None"
    using assms(2) by (rule malformed_no_candidate)
  have "sameAsStatementIdSet config (xs @ r # ys) focal = sameAsStatementIdSet config (xs @ ys) focal"
    using assms(1) by (rule idSet_without_validFrom_row)
  then have "findPrimaryFideId lc sid fid config (xs @ r # ys) focal
           = findPrimaryFideId lc sid fid config (xs @ ys) focal"
    by (simp add: findPrimaryFideId_def candidates_without_row [OF n])
  with n show ?thesis by simp
qed

theorem malformed_rows_skipped_witness:
  "malformedSubject exMalformedRow
   \<and> findPrimaryFideId codeUnitCompare exStatementIdentity exIdentity exConfig
        ([exSameAs] @ exMalformedRow # [exValidFromRow ''did:fide:0xb2'' (Some 7) ''2021-01-01''])
        exFocal
      = findPrimaryFideId codeUnitCompare exStatementIdentity exIdentity exConfig
        ([exSameAs] @ [exValidFromRow ''did:fide:0xb2'' (Some 7) ''2021-01-01'']) exFocal
   \<and> rederivationThrows exStatementIdentity exThrowingRow
   \<and> findPrimaryFideId codeUnitCompare exStatementIdentity exIdentity exConfig
        ([exSameAs] @ exThrowingRow # [exValidFromRow ''did:fide:0xb2'' (Some 7) ''2021-01-01''])
        exFocal
      = findPrimaryFideId codeUnitCompare exStatementIdentity exIdentity exConfig
        ([exSameAs] @ [exValidFromRow ''did:fide:0xb2'' (Some 7) ''2021-01-01'']) exFocal"
proof -
  have p: "predicate_raw_identifier exMalformedRow = SCHEMA_VALID_FROM_IRI"
    "predicate_raw_identifier exThrowingRow = SCHEMA_VALID_FROM_IRI"
    by (simp_all add: exMalformedRow_def exThrowingRow_def)
  have m: "malformedSubject exMalformedRow"
    by (simp add: malformedSubject_def exMalformedRow_def)
  have t: "rederivationThrows exStatementIdentity exThrowingRow"
    by (simp add: rederivationThrows_def exThrowingRow_def exStatementIdentity_def)
  from malformed_rows_skipped [OF p(1) disjI1 [OF m]]
    malformed_rows_skipped [OF p(2) disjI2 [OF t]] m t
  show ?thesis by blast
qed

section \<open>Properties of the vocabulary term index\<close>

lemmas vocab_defs =
  lookupTerm_def loadVocabularyIndex_def graphOf_def jsGet_def exSnapshot_def indexNode_def
  nodeId_def toKnownCurie_def startsWith_def sliceAfter_def definitionOf_def textOf_def
  idsOf_def entryOf_def Let_def

lemma find_app:
  "List.find P (xs @ ys) = (case List.find P xs of None \<Rightarrow> List.find P ys | Some x \<Rightarrow> Some x)"
  by (induction xs) auto

lemma indexNode_apply:
  "indexNode index node key = (if definesKey key node then Some (entryOf node) else index key)"
  by (auto simp: indexNode_def definesKey_def entryOf_def Let_def split: option.splits)

lemma fold_indexNode_apply:
  "fold (\<lambda>node idx. indexNode idx node) graph index key =
     (case findLast (definesKey key) graph of
        None \<Rightarrow> index key
      | Some node \<Rightarrow> Some (entryOf node))"
proof (induction graph arbitrary: index)
  case Nil
  then show ?case by (simp add: findLast_def)
next
  case (Cons node graph)
  have "fold (\<lambda>node idx. indexNode idx node) (node # graph) index key
          = (case findLast (definesKey key) graph of
               None \<Rightarrow> indexNode index node key
             | Some n \<Rightarrow> Some (entryOf n))"
    using Cons.IH [of "indexNode index node"] by simp
  also have "\<dots> = (case findLast (definesKey key) (node # graph) of
                       None \<Rightarrow> index key
                     | Some n \<Rightarrow> Some (entryOf n))"
    by (simp add: findLast_def find_app indexNode_apply split: option.splits)
  finally show ?case .
qed

lemma findLast_append:
  "findLast P (xs @ ys) = (case findLast P ys of None \<Rightarrow> findLast P xs | Some y \<Rightarrow> Some y)"
  by (simp add: findLast_def find_app split: option.splits)

lemma loadFiles_apply:
  "loadFiles files index = Inr index' \<Longrightarrow>
     index' key = (case findLast (definesKey key) (loadedNodes files) of
                     None \<Rightarrow> index key
                   | Some node \<Rightarrow> Some (entryOf node))"
proof (induction files index rule: loadFiles.induct)
  case (1 index)
  then show ?case by (simp add: loadedNodes_def findLast_def)
next
  case (2 files index)
  then show ?case by (simp add: loadedNodes_def nodesOf_def)
next
  case (3 parsed files index)
  from "3.prems" obtain graph where g: "graphOf parsed = Inr graph"
    by (cases "graphOf parsed") auto
  with "3.prems" have l: "loadFiles files (fold (\<lambda>node idx. indexNode idx node) graph index) = Inr index'"
    by simp
  have n: "loadedNodes (Some parsed # files) = graph @ loadedNodes files"
    using g by (simp add: loadedNodes_def nodesOf_def)
  show ?case
    using "3.IH" [OF g l]
    by (simp add: n findLast_append fold_indexNode_apply split: option.splits)
qed

lemma loadFiles_succeeds:
  "Some JNull \<notin> set files \<Longrightarrow> \<exists>index'. loadFiles files index = Inr index'"
proof (induction files index rule: loadFiles.induct)
  case (3 parsed files index)
  then have "parsed \<noteq> JNull" by auto
  then obtain graph where g: "graphOf parsed = Inr graph"
    by (cases "graphOf parsed") (auto simp: graphOf_def split: option.splits json.splits)
  with 3 show ?case by auto
qed auto

lemma find_Some_mem: "List.find P xs = Some x \<Longrightarrow> x \<in> set xs \<and> P x"
  by (induction xs) (auto split: if_splits)

lemma findLast_Some: "findLast P xs = Some x \<Longrightarrow> x \<in> set xs \<and> P x"
  unfolding findLast_def using find_Some_mem [of P "rev xs" x] by simp

lemma findLast_exists: "\<exists>x \<in> set xs. P x \<Longrightarrow> \<exists>y. findLast P xs = Some y"
  unfolding findLast_def by (cases "List.find P (rev xs)") (auto simp: find_None_iff)

text \<open>
  C9, as the claim states it, fails: of two snapshots that describe the same term, the
  index holds the description of the second one in load order.
\<close>

theorem first_snapshot_overwritten_counterexample:
  "lookupTerm (loadVocabularyIndex [Some (exSnapshot ''first''), Some (exSnapshot ''second'')])
     ''https://schema.org/name''
   = Some \<lparr>termId = ''schema:name'', kind = KindPredicate, entryLabel = Some ''second'',
       entryDefinition = None, category = None, equivalentClass = [], subClassOf = []\<rparr>"
  by (simp add: vocab_defs)

text \<open>
  C9, amended. When the index is built by merging the snapshots, a key (a term
  identifier or its compact form) that occurs in more than one snapshot keeps the
  definition from the last snapshot in load order: the entry of a key is the entry of the
  last node, in load order, that defines it. Loading succeeds unless a snapshot parses to
  \<^verbatim>\<open>null\<close>. In particular, of a pair of snapshots that both define a term, the second
  one provides the entry.
\<close>

theorem last_snapshot_wins:
  "(Some JNull \<notin> set files \<longrightarrow> (\<exists>index. loadVocabularyIndex files = Inr index))
   \<and> (\<forall>index. loadVocabularyIndex files = Inr index \<longrightarrow>
         index key = (case findLast (definesKey key) (loadedNodes files) of
                        None \<Rightarrow> None
                      | Some node \<Rightarrow> Some (entryOf node)))
   \<and> (graphOf first = Inr g1 \<and> graphOf second = Inr g2
        \<and> (\<exists>n \<in> set g1. definesKey key n) \<and> (\<exists>n \<in> set g2. definesKey key n)
      \<longrightarrow> (\<exists>n \<in> set g2. definesKey key n
             \<and> lookupTerm (loadVocabularyIndex [Some first, Some second]) key
                 = Some (entryOf n)))"
proof -
  have a: "Some JNull \<notin> set files \<longrightarrow> (\<exists>index. loadVocabularyIndex files = Inr index)"
    using loadFiles_succeeds [of files Map.empty] by (simp add: loadVocabularyIndex_def)
  have b: "\<forall>index. loadVocabularyIndex files = Inr index \<longrightarrow>
         index key = (case findLast (definesKey key) (loadedNodes files) of
                        None \<Rightarrow> None
                      | Some node \<Rightarrow> Some (entryOf node))"
    using loadFiles_apply [of files Map.empty _ key] by (simp add: loadVocabularyIndex_def)
  have c: "\<exists>n \<in> set g2. definesKey key n
             \<and> lookupTerm (loadVocabularyIndex [Some first, Some second]) key
                 = Some (entryOf n)"
    if g: "graphOf first = Inr g1" "graphOf second = Inr g2"
      and d: "\<exists>n \<in> set g2. definesKey key n"
  proof -
    from findLast_exists [OF d] obtain n where n: "findLast (definesKey key) g2 = Some n"
      by blast
    from g obtain index where i: "loadVocabularyIndex [Some first, Some second] = Inr index"
      by (simp add: loadVocabularyIndex_def)
    have "loadedNodes [Some first, Some second] = g1 @ g2"
      using g by (simp add: loadedNodes_def nodesOf_def)
    with n have "findLast (definesKey key) (loadedNodes [Some first, Some second]) = Some n"
      by (simp add: findLast_append)
    with loadFiles_apply [of "[Some first, Some second]" Map.empty index key] i
    have "index key = Some (entryOf n)"
      by (simp add: loadVocabularyIndex_def)
    with i findLast_Some [OF n] show ?thesis
      by (auto simp: lookupTerm_def)
  qed
  from a b c show ?thesis by blast
qed

theorem last_snapshot_wins_witness:
  "lookupTerm (loadVocabularyIndex [Some (exSnapshot ''first''), Some (exSnapshot ''second'')])
     ''schema:name''
   = Some (entryOf (JObject [(''@id'', JString ''https://schema.org/name''),
                             (''rdfs:label'', JString ''second'')]))
   \<and> lookupTerm
       (loadVocabularyIndex [Some (exSnapshot ''first''), None, Some (exSnapshot ''second'')])
       ''schema:name''
     = Some (entryOf (JObject [(''@id'', JString ''https://schema.org/name''),
                               (''rdfs:label'', JString ''second'')]))"
proof -
  let ?n = "\<lambda>l. JObject [(''@id'', JString ''https://schema.org/name''),
                          (''rdfs:label'', JString l)]"
  let ?files = "[Some (exSnapshot ''first''), None, Some (exSnapshot ''second'')]"
  have g: "graphOf (exSnapshot ''first'') = Inr [?n ''first'']"
    "graphOf (exSnapshot ''second'') = Inr [?n ''second'']"
    by (simp_all add: graphOf_def jsGet_def exSnapshot_def)
  have d: "definesKey ''schema:name'' (?n ''first'')" "definesKey ''schema:name'' (?n ''second'')"
    by (simp_all add: definesKey_def nodeId_def jsGet_def toKnownCurie_def startsWith_def
        sliceAfter_def)
  note t = last_snapshot_wins [of ?files "''schema:name''" "exSnapshot ''first''" "[?n ''first'']"
      "exSnapshot ''second''" "[?n ''second'']"]
  have pair: "lookupTerm
       (loadVocabularyIndex [Some (exSnapshot ''first''), Some (exSnapshot ''second'')])
       ''schema:name'' = Some (entryOf (?n ''second''))"
    using t g d by simp
  have "Some JNull \<notin> set ?files"
    by (simp add: exSnapshot_def)
  with t obtain index where i: "loadVocabularyIndex ?files = Inr index"
    by blast
  have "findLast (definesKey ''schema:name'') (loadedNodes ?files) = Some (?n ''second'')"
    using g d by (simp add: loadedNodes_def nodesOf_def findLast_def)
  with t i have "index ''schema:name'' = Some (entryOf (?n ''second''))"
    by simp
  with i pair show ?thesis by (simp add: lookupTerm_def)
qed

section \<open>Properties of the consideration router\<close>

lemmas router_defs =
  considerationStep_def resolveEvidencePool_def selectEvidence_def anchorCandidatesOf_def
  pickAtomicEvidencePool_def collectPrimarySourceLinksForStatement_def
  isReportBackedPrimarySource_def generateUnit_def pickAtomicRequiredAnchor_def
  compareByObjectDate_def truthy_def skipped_def jsSort_def
  matchesStatementReference_def statementRawOf_def buildStatementRawIdentifier_def
  startsWith_def codeUnitCompare_def MAX_SAFE_INTEGER_def

lemmas run_defs =
  runPromptAtomic_def getStringFlag_def normalizeAtomicConsideration_def
  passesPersonMethodCriteria_def exitCode_def ALL_ATOMIC_CONSIDERATIONS_def


lemmas ex_host_defs = exParse_def exDateParse_def exFlags_def exWrites_def



lemma criteria_sameAs:
  "passesPersonMethodCriteria pf target = Inr None \<Longrightarrow>
     predicateRawIdentifier target = OWL_SAME_AS_IRI"
  by (auto simp: passesPersonMethodCriteria_def split: if_splits option.splits)

lemma accepted_run:
  assumes "acceptedRequest pf flags statements target"
  shows "runPromptAtomic lc dp pf vf wr flags statements =
     (let consideration = normalizeAtomicConsideration (getStringFlag flags ''consideration'');
          considerations = (case consideration of Some c \<Rightarrow> [c] | None \<Rightarrow> ALL_ATOMIC_CONSIDERATIONS)
      in case runConsiderations
                (considerationStep lc dp pf vf wr consideration
                   (getStringFlag flags ''evidence-statement'') target
                   (buildPersonPromptContextStatements target statements))
                considerations of
           Inl f \<Rightarrow> Inl f
         | Inr (summaries, allGens) \<Rightarrow>
             (if allGens = [] then Inl NoPromptsGenerated
              else Inr \<lparr>targetSameAsStatementFideId = statementFideId target,
                        selectedConsiderations = considerations,
                        totalGeneratedCount = length allGens,
                        considerationSummaries = summaries,
                        generated = allGens\<rparr>))"
proof -
  from assms have c: "passesPersonMethodCriteria pf target = Inr None"
    and f: "List.find (\<lambda>st. Some (statementFideId st) = getStringFlag flags ''statement'')
              statements = Some target"
    and t: "truthy (getStringFlag flags ''statement'')" "\<not> truthy (getStringFlag flags ''out'')"
    and n: "\<not> (truthy (getStringFlag flags ''consideration'')
            \<and> normalizeAtomicConsideration (getStringFlag flags ''consideration'') = None)"
       "\<not> (truthy (getStringFlag flags ''evidence-statement'')
            \<and> normalizeAtomicConsideration (getStringFlag flags ''consideration'') = None)"
    by (simp_all add: acceptedRequest_def)
  from c have p: "predicateRawIdentifier target = OWL_SAME_AS_IRI"
    by (rule criteria_sameAs)
  show ?thesis
    unfolding runPromptAtomic_def Let_def
    using n by (simp only: t f c p if_True if_False not_True_eq_False not_False_eq_True
        option.case sum.case simp_thms split: if_splits)
qed


























text \<open>
  C6, on the code. The loop of the run sorts the anchor candidates of the citation-chain
  consideration by statement identifier alone. Of the two validFrom statements of the
  example the one dated 2022-06-01 has the smaller identifier and is selected, although
  the one dated 2021-01-01 is earlier and has a report-backed citation; the selected
  anchor has none, so the run that asks for the citation chain ends without a prompt.
  The anchor function beside it, which sorts by parsed object date and then by
  identifier, picks the statement dated 2021-01-01 on the same context.
\<close>

theorem citation_chain_anchor_by_identifier_only:
  "anchorCandidatesOf codeUnitCompare exTarget
       (buildPersonPromptContextStatements exTarget exStatements)
     = [exValidFrom2022, exValidFrom2021]
   \<and> filter isReportBackedPrimarySource
        (collectPrimarySourceLinksForStatement exValidFrom2021
           (buildPersonPromptContextStatements exTarget exStatements))
     = [exCitation2021]
   \<and> runPromptAtomic codeUnitCompare exDateParse exParse exVocabulary exWrites
        (exFlags [(''statement'', ''did:fide:0xt1''), (''consideration'', ''citation_chain'')])
        exStatements
     = Inl NoPrimarySourceForAnchor
   \<and> pickAtomicRequiredAnchor codeUnitCompare exDateParse citation_chain exTarget exCitationNews
        (buildPersonPromptContextStatements exTarget exStatements)
     = [exValidFrom2021]"
proof -
  let ?flags = "exFlags [(''statement'', ''did:fide:0xt1''), (''consideration'', ''citation_chain'')]"
  let ?ctx = "buildPersonPromptContextStatements exTarget exStatements"
  have a: "anchorCandidatesOf codeUnitCompare exTarget ?ctx = [exValidFrom2022, exValidFrom2021]"
    unfolding closure_example by (simp add: router_defs ex_statement_defs iri_defs)
  have b: "filter isReportBackedPrimarySource
        (collectPrimarySourceLinksForStatement exValidFrom2021 ?ctx) = [exCitation2021]"
    unfolding closure_example by (simp add: router_defs ex_statement_defs iri_defs)
  have n: "filter isReportBackedPrimarySource
        (collectPrimarySourceLinksForStatement exValidFrom2022 ?ctx) = []"
    unfolding closure_example by (simp add: router_defs ex_statement_defs iri_defs)
  have acc: "acceptedRequest exParse ?flags exStatements exTarget"
    by (simp add: acceptedRequest_def run_defs truthy_def ex_host_defs ex_statement_defs
        iri_defs startsWith_def)
  have c: "normalizeAtomicConsideration (getStringFlag ?flags ''consideration'')
              = Some citation_chain"
    by (simp add: run_defs truthy_def ex_host_defs)
  have s: "considerationStep codeUnitCompare exDateParse exParse exVocabulary exWrites
       (Some citation_chain)
             (getStringFlag ?flags ''evidence-statement'') exTarget ?ctx citation_chain
           = Inl NoPrimarySourceForAnchor"
    using a n by (simp add: considerationStep_def resolveEvidencePool_def Let_def)
  have r: "runPromptAtomic codeUnitCompare exDateParse exParse exVocabulary exWrites ?flags exStatements
             = Inl NoPrimarySourceForAnchor"
    using s by (simp add: accepted_run [OF acc] c)
  have p: "pickAtomicRequiredAnchor codeUnitCompare exDateParse citation_chain exTarget
             exCitationNews ?ctx = [exValidFrom2021]"
    unfolding closure_example
    by (simp add: router_defs ex_statement_defs iri_defs ex_host_defs)
  from a b r p show ?thesis by simp
qed

end
